(* ===== verification/Prelude.thy ===== *)
theory Prelude
  imports Complex_Main
    "HOL-Library.Char_ord"
    "HOL-Library.List_Lexorder"
    "HOL-Library.Product_Lexorder"
    "HOL-Library.Multiset"
begin

text \<open>
  Shared vocabulary of the development: the semantics of the few pandas, Dash and Python
  primitives the repository relies on, and generic lemmas on lists, sums and association
  lists that the component theories share.
  \<^item> A numeric DataFrame cell is \<open>int option\<close>; \<open>None\<close> is a missing value (NaN).
    \<open>pd_sum\<close> is \<open>Series.sum()\<close> with its defaults (\<open>skipna=True\<close>, \<open>min_count=0\<close>):
    NaN cells count as 0 and an empty or all-NaN series sums to 0.
  \<^item> The value of a \<open>dcc.Dropdown\<close> is a \<open>selector\<close>, \<open>string option\<close>; \<open>None\<close> is a
    cleared dropdown (Python \<open>None\<close>). \<open>sel_eq cell v\<close> is pandas' elementwise
    \<open>column == v\<close>: a comparison with \<open>None\<close> is false for every cell.
  \<^item> \<open>py_str_nat\<close> is Python's \<open>str\<close> (and f-string formatting) on a non-negative
    integer; \<open>parse_nat\<close> reads a decimal numeral back.
  Strings are ordered as Python orders them (by code point, lexicographically), which is
  what \<open>List_Lexorder\<close> and \<open>Char_ord\<close> give on \<open>string\<close>.
\<close>

named_theorems pandas_simps "evaluation rules for the pandas primitives of the model"

type_synonym num_cell = "int option"
type_synonym selector = "string option"

section \<open>pandas and Python primitives\<close>

definition nan_to_zero :: "num_cell \<Rightarrow> int" where
  "nan_to_zero c = (case c of None \<Rightarrow> 0 | Some v \<Rightarrow> v)"

definition pd_sum :: "num_cell list \<Rightarrow> int" where
  "pd_sum cs = sum_list (map nan_to_zero cs)"

definition sel_eq :: "string \<Rightarrow> selector \<Rightarrow> bool" where
  "sel_eq cell v \<longleftrightarrow> v = Some cell"

definition py_str_sel :: "selector \<Rightarrow> string" where
  "py_str_sel v = (case v of None \<Rightarrow> ''None'' | Some s \<Rightarrow> s)"

definition digit_char :: "nat \<Rightarrow> char" where
  "digit_char d = char_of (48 + d)"

fun py_str_nat :: "nat \<Rightarrow> string" where
  "py_str_nat n =
     (if n < 10 then [digit_char n] else py_str_nat (n div 10) @ [digit_char (n mod 10)])"

declare py_str_nat.simps [simp del]

definition is_digit :: "char \<Rightarrow> bool" where
  "is_digit c \<longleftrightarrow> 48 \<le> (of_char c :: nat) \<and> (of_char c :: nat) \<le> 57"

definition digit_val :: "char \<Rightarrow> nat" where
  "digit_val c = of_char c - 48"

fun parse_digits :: "nat \<Rightarrow> string \<Rightarrow> nat option" where
  "parse_digits acc [] = Some acc"
| "parse_digits acc (c # cs) =
     (if is_digit c then parse_digits (10 * acc + digit_val c) cs else None)"

definition parse_nat :: "string \<Rightarrow> nat option" where
  "parse_nat s = (if s = [] then None else parse_digits 0 s)"

definition nonneg_cell :: "num_cell \<Rightarrow> bool" where
  "nonneg_cell c \<longleftrightarrow> 0 \<le> nan_to_zero c"

definition trailing_digits :: "string \<Rightarrow> string" where
  "trailing_digits s = rev (takeWhile is_digit (rev s))"

section \<open>Lemmas on the primitives\<close>

lemma nan_to_zero_simps [simp, pandas_simps]:
  "nan_to_zero None = 0" "nan_to_zero (Some v) = v"
  by (simp_all add: nan_to_zero_def)

lemma pd_sum_simps [simp, pandas_simps]:
  "pd_sum [] = 0"
  "pd_sum (c # cs) = nan_to_zero c + pd_sum cs"
  "pd_sum (cs @ ds) = pd_sum cs + pd_sum ds"
  by (simp_all add: pd_sum_def)

lemma sel_eq_simps [simp, pandas_simps]:
  "sel_eq cell None = False" "sel_eq cell (Some v) \<longleftrightarrow> v = cell"
  by (auto simp: sel_eq_def)

lemma py_str_sel_simps [simp, pandas_simps]:
  "py_str_sel None = ''None''" "py_str_sel (Some s) = s"
  by (simp_all add: py_str_sel_def)

lemma pd_sum_nonneg:
  "(\<And>x. x \<in> set xs \<Longrightarrow> nonneg_cell (f x)) \<Longrightarrow> 0 \<le> pd_sum (map f xs)"
  by (induction xs) (auto simp: nonneg_cell_def)

lemma pd_sum_filter_le:
  "(\<And>x. x \<in> set xs \<Longrightarrow> nonneg_cell (f x)) \<Longrightarrow>
   pd_sum (map f (filter P xs)) \<le> pd_sum (map f xs)"
proof (induction xs)
  case Nil
  then show ?case by simp
next
  case (Cons x xs)
  then have "0 \<le> nan_to_zero (f x)" and "pd_sum (map f (filter P xs)) \<le> pd_sum (map f xs)"
    by (auto simp: nonneg_cell_def)
  then show ?case by simp
qed

subsection \<open>Decimal rendering and parsing\<close>

lemma is_digit_digit_char [simp]: "d < 10 \<Longrightarrow> is_digit (digit_char d)"
  by (simp add: is_digit_def digit_char_def)

lemma digit_val_digit_char [simp]: "d < 10 \<Longrightarrow> digit_val (digit_char d) = d"
  by (simp add: digit_val_def digit_char_def)

lemma py_str_nat_digits: "c \<in> set (py_str_nat n) \<Longrightarrow> is_digit c"
proof (induction n rule: py_str_nat.induct)
  case (1 n)
  then show ?case
    by (cases "n < 10") (auto simp: py_str_nat.simps [of n])
qed

lemma py_str_nat_nonempty [simp]: "py_str_nat n \<noteq> []"
  by (simp add: py_str_nat.simps [of n])

lemma parse_digits_append:
  "parse_digits acc (xs @ ys) =
     (case parse_digits acc xs of None \<Rightarrow> None | Some a \<Rightarrow> parse_digits a ys)"
  by (induction acc xs rule: parse_digits.induct) auto

lemma parse_digits_py_str_nat: "parse_digits 0 (py_str_nat n) = Some n"
proof (induction n rule: py_str_nat.induct)
  case (1 n)
  show ?case
  proof (cases "n < 10")
    case True
    then show ?thesis by (simp add: py_str_nat.simps [of n])
  next
    case False
    then have "parse_digits 0 (py_str_nat n) =
        parse_digits (n div 10) [digit_char (n mod 10)]"
      using "1.IH" by (simp add: py_str_nat.simps [of n] parse_digits_append)
    then show ?thesis by simp
  qed
qed

lemma parse_nat_py_str_nat [simp]: "parse_nat (py_str_nat n) = Some n"
  by (simp add: parse_nat_def parse_digits_py_str_nat)

text \<open>Evaluation of the decimal rendering at a concrete number, for witnesses.\<close>

lemmas py_str_eval = py_str_nat.simps digit_char_def char_of_def bit_0

lemma trailing_digits_append_num:
  assumes "\<not> is_digit (last p)" and "p \<noteq> []"
  shows "trailing_digits (p @ py_str_nat n) = py_str_nat n"
proof -
  have "takeWhile is_digit (rev (py_str_nat n) @ rev p) = rev (py_str_nat n) @ takeWhile is_digit (rev p)"
    by (rule takeWhile_append2) (simp add: py_str_nat_digits)
  moreover have "takeWhile is_digit (rev p) = []"
    using assms by (cases "rev p") (auto simp: last_rev [symmetric])
  ultimately show ?thesis by (simp add: trailing_digits_def)
qed

subsection \<open>Sums over a partition of a list\<close>

text \<open>
  Summing over a list equals summing, over any finite set of keys that covers the list,
  the sums of the sub-lists of each key. This is what a group-by followed by a total
  over the groups relies on.
\<close>

lemma sum_list_partition:
  fixes f :: "'a \<Rightarrow> 'b::comm_monoid_add"
  assumes "finite K" and "g ` set xs \<subseteq> K"
  shows "sum_list (map f xs) = (\<Sum>k\<in>K. sum_list (map f (filter (\<lambda>x. g x = k) xs)))"
  using assms(2)
proof (induction xs)
  case Nil
  then show ?case by simp
next
  case (Cons x xs)
  have step: "\<And>k. sum_list (map f (filter (\<lambda>y. g y = k) (x # xs)))
      = (if g x = k then f x else 0) + sum_list (map f (filter (\<lambda>y. g y = k) xs))"
    by simp
  have "(\<Sum>k\<in>K. sum_list (map f (filter (\<lambda>y. g y = k) (x # xs))))
      = (\<Sum>k\<in>K. (if g x = k then f x else 0)) + (\<Sum>k\<in>K. sum_list (map f (filter (\<lambda>y. g y = k) xs)))"
    unfolding step by (rule sum.distrib)
  also have "(\<Sum>k\<in>K. (if g x = k then f x else 0)) = f x"
    using Cons.prems assms(1) by (simp add: sum.delta)
  finally show ?case using Cons by simp
qed

lemma pd_sum_partition:
  assumes "finite K" and "g ` set xs \<subseteq> K"
  shows "pd_sum (map f xs) = (\<Sum>k\<in>K. pd_sum (map f (filter (\<lambda>x. g x = k) xs)))"
  using sum_list_partition [OF assms, of "nan_to_zero \<circ> f"]
  by (simp add: pd_sum_def comp_def)

subsection \<open>Association lists with strictly sorted keys\<close>

lemma alist_rebuild:
  "distinct (map fst xs) \<Longrightarrow> map (\<lambda>k. (k, the (map_of xs k))) (map fst xs) = xs"
proof (induction xs)
  case Nil
  then show ?case by simp
next
  case (Cons p xs)
  then have "map (\<lambda>k. (k, the (map_of (p # xs) k))) (map fst xs)
      = map (\<lambda>k. (k, the (map_of xs k))) (map fst xs)"
    by (intro map_cong) (fastforce simp: image_iff)+
  with Cons show ?case by (cases p) simp
qed

lemma sorted_alist_unique:
  fixes xs ys :: "('k::linorder \<times> 'v) list"
  assumes "sorted_wrt (<) (map fst xs)" and "sorted_wrt (<) (map fst ys)"
    and "map_of xs = map_of ys"
  shows "xs = ys"
proof -
  have dx: "distinct (map fst xs)" and dy: "distinct (map fst ys)"
    using assms(1,2) by (simp_all add: strict_sorted_iff)
  have "set (map fst xs) = set (map fst ys)"
    using assms(3) by (metis dom_map_of_conv_image_fst set_map)
  then have keys: "map fst xs = map fst ys"
    using assms(1,2) strict_sorted_equal by metis
  have "xs = map (\<lambda>k. (k, the (map_of xs k))) (map fst xs)"
    by (rule alist_rebuild [OF dx, symmetric])
  also have "\<dots> = map (\<lambda>k. (k, the (map_of ys k))) (map fst ys)"
    using keys assms(3) by simp
  also have "\<dots> = ys"
    by (rule alist_rebuild [OF dy])
  finally show ?thesis .
qed

end
