(* ===== verification/Table.thy ===== *)
theory Table
  imports Prelude
begin

text \<open>
  The mortality table \<open>deaths\<close> that both dashboards read (\<^verbatim>\<open>src/app.py\<close> line 7,
  \<^verbatim>\<open>src/covid_analysis.py\<close> line 28: \<open>pd.read_csv(".../coviddeath.csv")\<close>). A row
  is a record of the four columns the code uses; the table is the list of rows in file
  order (the DataFrame's row order, which boolean-mask filtering keeps). The list of
  condition names is the module-level \<open>conditions\<close> of \<^verbatim>\<open>src/app.py\<close>. The
  well-formedness predicate is the invariant the specification states for the data:
  a present death count is never negative.
\<close>

record mortality_row =
  State :: string
  Age_Group :: string
  Condition :: string
  COVID_19_Deaths :: num_cell

type_synonym deaths_table = "mortality_row list"

definition conditions :: "string list" where
  "conditions =
    [''Influenza and pneumonia'', ''Chronic lower respiratory diseases'',
     ''Adult respiratory distress syndrome'', ''Respiratory failure'',
     ''Respiratory arrest'', ''Other diseases of the respiratory system'',
     ''Hypertensive diseases'', ''Ischemic heart disease'', ''Cardiac arrest'',
     ''Cardiac arrhythmia'', ''Heart failure'', ''Cerebrovascular diseases'',
     ''Other diseases of the circulatory system'', ''Sepsis'', ''Malignant neoplasms'',
     ''Diabetes'', ''Obesity'', ''Alzheimer disease'', ''Vascular and unspecified dementia'',
     ''Renal failure'', ''Intentional and unintentional injury, poisoning, and other adverse events'',
     ''All other conditions and causes (residual)'', ''COVID-19'']"

text \<open>The notebook's own copy of the list (\<^verbatim>\<open>src/covid_analysis.py\<close> lines 144--152).\<close>

definition conditions_nb :: "string list" where
  "conditions_nb =
    [''Influenza and pneumonia'', ''Chronic lower respiratory diseases'',
     ''Adult respiratory distress syndrome'', ''Respiratory failure'',
     ''Respiratory arrest'', ''Other diseases of the respiratory system'',
     ''Hypertensive diseases'', ''Ischemic heart disease'', ''Cardiac arrest'',
     ''Cardiac arrhythmia'', ''Heart failure'', ''Cerebrovascular diseases'',
     ''Other diseases of the circulatory system'', ''Sepsis'', ''Malignant neoplasms'',
     ''Diabetes'', ''Obesity'', ''Alzheimer disease'', ''Vascular and unspecified dementia'',
     ''Renal failure'', ''Intentional and unintentional injury, poisoning, and other adverse events'',
     ''All other conditions and causes (residual)'', ''COVID-19'']"

definition wf_row :: "mortality_row \<Rightarrow> bool" where
  "wf_row r \<longleftrightarrow> nonneg_cell (COVID_19_Deaths r)"

definition wf_table :: "deaths_table \<Rightarrow> bool" where
  "wf_table t \<longleftrightarrow> list_all wf_row t"

definition mk_row :: "string \<Rightarrow> string \<Rightarrow> string \<Rightarrow> num_cell \<Rightarrow> mortality_row" where
  "mk_row s a c n = \<lparr>State = s, Age_Group = a, Condition = c, COVID_19_Deaths = n\<rparr>"

text \<open>The three-row table of the specification's concrete scenario.\<close>

definition example_deaths :: deaths_table where
  "example_deaths =
    [mk_row ''California'' ''65-74'' ''COVID-19'' (Some 500),
     mk_row ''California'' ''65-74'' ''Diabetes'' (Some 120),
     mk_row ''Texas'' ''65-74'' ''COVID-19'' (Some 300)]"

lemma mk_row_sel [simp]:
  "State (mk_row s a c n) = s" "Age_Group (mk_row s a c n) = a"
  "Condition (mk_row s a c n) = c" "COVID_19_Deaths (mk_row s a c n) = n"
  by (simp_all add: mk_row_def)

lemma wf_table_simps [simp]:
  "wf_table []" "wf_table (r # t) \<longleftrightarrow> wf_row r \<and> wf_table t"
  by (simp_all add: wf_table_def)

lemma wf_table_deaths: "wf_table t \<Longrightarrow> r \<in> set t \<Longrightarrow> nonneg_cell (COVID_19_Deaths r)"
  by (auto simp: wf_table_def wf_row_def list_all_iff)

lemma distinct_conditions: "distinct conditions"
  by (simp add: conditions_def)

lemma conditions_nb_conditions: "conditions_nb = conditions"
  by (simp add: conditions_nb_def conditions_def)

lemma length_conditions: "length conditions = 23"
  by (simp add: conditions_def)

end
