(* ===== verification/ConditionFilter.thy ===== *)
theory ConditionFilter
  imports Table
begin

text \<open>
  The "Mortality by Comorbidity" dashboard: the callback \<open>update_mortality_dashboard\<close>
  of \<^verbatim>\<open>src/app.py\<close> (lines 94--108) and its notebook twin \<open>update_output\<close> of
  \<^verbatim>\<open>src/covid_analysis.py\<close> (lines 199--217). Each takes the two dropdown values
  (\<open>selector\<close>s, \<open>None\<close> when a dropdown is cleared), filters the table with a boolean
  mask, and returns the status text and the bar chart. The bar chart is modelled by the
  data it plots (one bar per filtered row: the row's state on x, its death count on y),
  its title and what \<open>fig.update_layout\<close> sets (the axis titles \<open>State\<close> and
  \<open>Number of Deaths\<close>, which override the \<open>labels\<close> mapping, and no legend);
  rendering is not modelled.
  The two masks differ: the app lets the sentinel \<open>'All ages'\<close> match every age
  group, the notebook compares the age column literally.
\<close>

record bar_figure =
  bar_x :: "string list"
  bar_y :: "num_cell list"
  bar_title :: string
  bar_xaxis_title :: string
  bar_yaxis_title :: string
  bar_showlegend :: bool

definition mortality_mask :: "selector \<Rightarrow> selector \<Rightarrow> mortality_row \<Rightarrow> bool" where
  "mortality_mask age_range condition r \<longleftrightarrow>
     (sel_eq (Age_Group r) age_range \<or> age_range = Some ''All ages'') \<and>
     sel_eq (Condition r) condition"

definition mortality_filter :: "selector \<Rightarrow> selector \<Rightarrow> deaths_table \<Rightarrow> deaths_table" where
  "mortality_filter age_range condition deaths = filter (mortality_mask age_range condition) deaths"

definition output_text :: "selector \<Rightarrow> selector \<Rightarrow> nat \<Rightarrow> string" where
  "output_text age_range condition n =
     ''Age Range: '' @ py_str_sel age_range @ '', Condition: '' @ py_str_sel condition @
     '', Number of Cases: '' @ py_str_nat n"

definition bar_chart :: "selector \<Rightarrow> selector \<Rightarrow> deaths_table \<Rightarrow> bar_figure" where
  "bar_chart age_range condition filtered_data =
     \<lparr>bar_x = map State filtered_data, bar_y = map COVID_19_Deaths filtered_data,
      bar_title = ''COVID-19 Deaths by State for '' @ py_str_sel condition @
                  '' in Age Range: '' @ py_str_sel age_range,
      bar_xaxis_title = ''State'', bar_yaxis_title = ''Number of Deaths'', bar_showlegend = False\<rparr>"

definition update_mortality_dashboard ::
  "deaths_table \<Rightarrow> selector \<Rightarrow> selector \<Rightarrow> string \<times> bar_figure" where
  "update_mortality_dashboard deaths age_range condition =
     (let filtered_data = mortality_filter age_range condition deaths
      in (output_text age_range condition (length filtered_data),
          bar_chart age_range condition filtered_data))"

definition update_output_filter :: "selector \<Rightarrow> selector \<Rightarrow> deaths_table \<Rightarrow> deaths_table" where
  "update_output_filter age_range condition deaths =
     filter (\<lambda>r. sel_eq (Age_Group r) age_range \<and> sel_eq (Condition r) condition) deaths"

definition update_output ::
  "deaths_table \<Rightarrow> selector \<Rightarrow> selector \<Rightarrow> string \<times> bar_figure" where
  "update_output deaths age_range condition =
     (let filtered_data = update_output_filter age_range condition deaths
      in (output_text age_range condition (length filtered_data),
          bar_chart age_range condition filtered_data))"

definition shown_count :: "string \<Rightarrow> nat option" where
  "shown_count txt = parse_nat (trailing_digits txt)"

section \<open>Lemmas\<close>

lemma mortality_mask_Some [simp]:
  "mortality_mask (Some a) (Some c) r \<longleftrightarrow>
     (Age_Group r = a \<or> a = ''All ages'') \<and> Condition r = c"
  by (auto simp: mortality_mask_def)

lemma output_text_count: "shown_count (output_text a c n) = Some n"
proof -
  let ?p = "''Age Range: '' @ py_str_sel a @ '', Condition: '' @ py_str_sel c @ '', Number of Cases: ''"
  have eq: "output_text a c n = ?p @ py_str_nat n"
    by (simp add: output_text_def)
  have "\<not> is_digit (last ?p)" and "?p \<noteq> []"
    by (simp_all add: is_digit_def)
  then have "trailing_digits (?p @ py_str_nat n) = py_str_nat n"
    by (rule trailing_digits_append_num)
  then show ?thesis
    unfolding shown_count_def eq by simp
qed

lemma bar_chart_bars [simp]: "length (bar_x (bar_chart a c rows)) = length rows"
  by (simp add: bar_chart_def)

lemmas dashboard_defs = update_mortality_dashboard_def update_output_def Let_def

section \<open>Properties\<close>

text \<open>
  C1. With the age selector at the sentinel \<open>'All ages'\<close>, the app's filter keeps exactly
  the rows of the selected condition, whatever their age group, in table order.
\<close>

theorem mortality_filter_all_ages:
  "mortality_filter (Some ''All ages'') (Some c) deaths = filter (\<lambda>r. Condition r = c) deaths"
  by (auto simp: mortality_filter_def intro!: filter_cong)

text \<open>
  C2. With any other age selector, the app's filter keeps exactly the rows whose age group
  and condition both equal the selections, in table order.
\<close>

theorem mortality_filter_age:
  assumes "a \<noteq> ''All ages''"
  shows "mortality_filter (Some a) (Some c) deaths =
           filter (\<lambda>r. Age_Group r = a \<and> Condition r = c) deaths"
  using assms by (auto simp: mortality_filter_def intro!: filter_cong)

theorem mortality_filter_age_witness:
  "''65-74'' \<noteq> ''All ages'' \<and>
   mortality_filter (Some ''65-74'') (Some ''COVID-19'') example_deaths =
     [mk_row ''California'' ''65-74'' ''COVID-19'' (Some 500),
      mk_row ''Texas'' ''65-74'' ''COVID-19'' (Some 300)]"
  using mortality_filter_age [of "''65-74''" "''COVID-19''" example_deaths]
  by (simp add: example_deaths_def)

text \<open>
  C3. The number printed at the end of the status text reads back as the number of bars
  the chart plots: the text's count and the chart agree, for every selection.
\<close>

theorem update_mortality_dashboard_count:
  "shown_count (fst (update_mortality_dashboard deaths a c)) =
     Some (length (bar_x (snd (update_mortality_dashboard deaths a c))))"
  by (simp add: dashboard_defs output_text_count)

text \<open>
  C4. A selection that matches no row is not an error: the text reports 0 cases and the
  chart has no bars.
\<close>

theorem update_mortality_dashboard_empty:
  assumes "a \<noteq> ''All ages''" and "\<forall>r\<in>set deaths. \<not> (Age_Group r = a \<and> Condition r = c)"
  shows "fst (update_mortality_dashboard deaths (Some a) (Some c)) =
           ''Age Range: '' @ a @ '', Condition: '' @ c @ '', Number of Cases: 0'' \<and>
         bar_x (snd (update_mortality_dashboard deaths (Some a) (Some c))) = []"
proof -
  have "mortality_filter (Some a) (Some c) deaths = []"
    using assms by (simp add: mortality_filter_def filter_empty_conv)
  then show ?thesis
    by (simp add: dashboard_defs output_text_def bar_chart_def py_str_eval)
qed

theorem update_mortality_dashboard_empty_witness:
  "''0-24'' \<noteq> ''All ages'' \<and>
   fst (update_mortality_dashboard example_deaths (Some ''0-24'') (Some ''Alzheimer disease'')) =
     ''Age Range: 0-24, Condition: Alzheimer disease, Number of Cases: 0'' \<and>
   bar_x (snd (update_mortality_dashboard example_deaths (Some ''0-24'') (Some ''Alzheimer disease''))) = []"
proof -
  have h: "\<forall>r\<in>set example_deaths. \<not> (Age_Group r = ''0-24'' \<and> Condition r = ''Alzheimer disease'')"
    by (simp add: example_deaths_def)
  show ?thesis
    using update_mortality_dashboard_empty [of "''0-24''" example_deaths "''Alzheimer disease''"] h
    by simp
qed

text \<open>
  C5. The notebook's callback agrees with the app's off the sentinel, but with
  \<open>'All ages'\<close> it keeps only the rows whose age group is literally \<open>'All ages'\<close>
  (the sentinel is not special there).
\<close>

theorem update_output_vs_app:
  "update_output_filter a c deaths =
     (if a = Some ''All ages''
      then filter (\<lambda>r. Age_Group r = ''All ages'' \<and> sel_eq (Condition r) c) deaths
      else mortality_filter a c deaths)"
  by (auto simp: update_output_filter_def mortality_filter_def mortality_mask_def sel_eq_def
           intro!: filter_cong)

text \<open>
  C6. A cleared dropdown (value \<open>None\<close>) makes either filter empty: pandas compares every
  cell with \<open>None\<close> as unequal. The app's text then still reports 0 cases.
\<close>

theorem mortality_filter_cleared:
  "mortality_filter a None deaths = [] \<and> mortality_filter None c deaths = [] \<and>
   update_output_filter a None deaths = [] \<and> update_output_filter None c deaths = []"
  by (simp add: mortality_filter_def mortality_mask_def update_output_filter_def)

end
