(* ===== verification/StateAggregator.thy ===== *)
theory StateAggregator
  imports Table
begin

text \<open>
  The map dashboard: \<open>update_time_series_dashboard\<close> of \<^verbatim>\<open>src/app.py\<close>
  (lines 110--129) and its notebook twin \<open>update_usa_map\<close> of
  \<^verbatim>\<open>src/covid_analysis.py\<close> (lines 255--277). Both compute
  \<open>deaths.groupby("State")["Number of COVID-19 Deaths"].sum().reset_index()\<close>, over
  the whole table when the selection is \<open>'All ages'\<close> and over the rows of the selected
  age group otherwise, and hand the result to \<open>px.choropleth\<close>; the notebook also
  sets the colour range to \<open>[min, max * 0.025]\<close> of the totals.

  The group-by is modelled as pandas computes it: one pass over the rows accumulating a
  running sum per key, NaN counted as 0 (\<open>groupby_step\<close>, \<open>group_add\<close>), keys kept
  in ascending order (\<open>sort=True\<close>), so that the result is an association list with
  strictly sorted keys. \<open>state_totals\<close> is the specification's reference: for each
  distinct state, in sorted order, the sum of its rows. The choropleth is modelled by the
  data it colours (locations and values), its title and, for the notebook, its colour
  range (\<open>None\<close> where pandas' \<open>min\<close>/\<open>max\<close> of an empty frame give NaN).
\<close>

record choropleth =
  map_locations :: "string list"
  map_color :: "int list"
  map_title :: string

record usa_map_figure =
  usa_locations :: "string list"
  usa_color :: "int list"
  usa_title :: string
  usa_range_color :: "(real \<times> real) option"

fun group_add :: "string \<Rightarrow> int \<Rightarrow> (string \<times> int) list \<Rightarrow> (string \<times> int) list" where
  "group_add k v [] = [(k, v)]"
| "group_add k v ((a, s) # ps) =
     (if k < a then (k, v) # (a, s) # ps
      else if k = a then (a, s + v) # ps
      else (a, s) # group_add k v ps)"

definition groupby_step :: "(string \<times> int) list \<Rightarrow> mortality_row \<Rightarrow> (string \<times> int) list" where
  "groupby_step acc r = group_add (State r) (nan_to_zero (COVID_19_Deaths r)) acc"

definition groupby_state_sum :: "deaths_table \<Rightarrow> (string \<times> int) list" where
  "groupby_state_sum rows = foldl groupby_step [] rows"

definition state_deaths :: "selector \<Rightarrow> deaths_table \<Rightarrow> (string \<times> int) list" where
  "state_deaths selected_age_range deaths =
     (if selected_age_range = Some ''All ages'' then groupby_state_sum deaths
      else groupby_state_sum (filter (\<lambda>r. sel_eq (Age_Group r) selected_age_range) deaths))"

definition map_title_text :: "selector \<Rightarrow> string" where
  "map_title_text selected_age_range =
     ''Total COVID-19 Deaths per State - Age Group: '' @ py_str_sel selected_age_range"

definition update_time_series_dashboard :: "deaths_table \<Rightarrow> selector \<Rightarrow> choropleth" where
  "update_time_series_dashboard deaths selected_age_range =
     (let filtered_data = state_deaths selected_age_range deaths
      in \<lparr>map_locations = map fst filtered_data, map_color = map snd filtered_data,
          map_title = map_title_text selected_age_range\<rparr>)"

definition range_color :: "(string \<times> int) list \<Rightarrow> (real \<times> real) option" where
  "range_color filtered_data =
     (if filtered_data = [] then None
      else Some (of_int (Min (set (map snd filtered_data))),
                 of_int (Max (set (map snd filtered_data))) * 0.025))"

definition update_usa_map :: "deaths_table \<Rightarrow> selector \<Rightarrow> usa_map_figure" where
  "update_usa_map deaths selected_age_range =
     (let filtered_data = state_deaths selected_age_range deaths
      in \<lparr>usa_locations = map fst filtered_data, usa_color = map snd filtered_data,
          usa_title = map_title_text selected_age_range,
          usa_range_color = range_color filtered_data\<rparr>)"

text \<open>The specification's reference for the group-by, and the value a state shows.\<close>

definition state_total :: "deaths_table \<Rightarrow> string \<Rightarrow> int" where
  "state_total rows s = pd_sum (map COVID_19_Deaths (filter (\<lambda>r. State r = s) rows))"

definition state_totals :: "deaths_table \<Rightarrow> (string \<times> int) list" where
  "state_totals rows = map (\<lambda>s. (s, state_total rows s)) (sort (remdups (map State rows)))"

definition lookup0 :: "(string \<times> int) list \<Rightarrow> string \<Rightarrow> int" where
  "lookup0 ps k = (case map_of ps k of None \<Rightarrow> 0 | Some v \<Rightarrow> v)"

section \<open>The group-by fold\<close>

lemma keys_group_add: "set (map fst (group_add k v ps)) = insert k (set (map fst ps))"
  by (induction k v ps rule: group_add.induct) auto

lemma sorted_group_add:
  "sorted_wrt (<) (map fst ps) \<Longrightarrow> sorted_wrt (<) (map fst (group_add k v ps))"
proof (induction k v ps rule: group_add.induct)
  case (1 k v)
  then show ?case by simp
next
  case (2 k v a s ps)
  then show ?case
    using keys_group_add [of k v ps] by (auto simp: not_less)
qed

lemma map_of_group_add:
  "sorted_wrt (<) (map fst ps) \<Longrightarrow>
   map_of (group_add k v ps) =
     (map_of ps)(k \<mapsto> (case map_of ps k of None \<Rightarrow> v | Some s \<Rightarrow> s + v))"
proof (induction k v ps rule: group_add.induct)
  case (1 k v)
  then show ?case by simp
next
  case (2 k v a s ps)
  then have "k < a \<Longrightarrow> map_of ps k = None"
    by (auto simp: map_of_eq_None_iff)
  with 2 show ?case by (auto simp: fun_eq_iff)
qed

lemma state_total_simps [simp]:
  "state_total [] s = 0"
  "state_total (r # rows) s =
     (if State r = s then nan_to_zero (COVID_19_Deaths r) else 0) + state_total rows s"
  by (simp_all add: state_total_def)

lemma sorted_foldl_groupby:
  "sorted_wrt (<) (map fst acc) \<Longrightarrow> sorted_wrt (<) (map fst (foldl groupby_step acc rows))"
  by (induction rows arbitrary: acc) (auto simp: groupby_step_def sorted_group_add)

lemma map_of_foldl_groupby:
  "sorted_wrt (<) (map fst acc) \<Longrightarrow>
   map_of (foldl groupby_step acc rows) k =
     (if map_of acc k = None \<and> k \<notin> State ` set rows then None
      else Some ((case map_of acc k of None \<Rightarrow> 0 | Some s \<Rightarrow> s) + state_total rows k))"
proof (induction rows arbitrary: acc)
  case Nil
  then show ?case by (auto split: option.splits)
next
  case (Cons r rows)
  then have "sorted_wrt (<) (map fst (groupby_step acc r))"
    by (simp add: groupby_step_def sorted_group_add)
  with Cons show ?case
    by (auto simp: groupby_step_def map_of_group_add split: option.splits)
qed

lemma map_of_groupby_state_sum:
  "map_of (groupby_state_sum rows) k =
     (if k \<in> State ` set rows then Some (state_total rows k) else None)"
  by (simp add: groupby_state_sum_def map_of_foldl_groupby)

lemma sorted_groupby_state_sum: "sorted_wrt (<) (map fst (groupby_state_sum rows))"
  by (simp add: groupby_state_sum_def sorted_foldl_groupby)

lemma map_of_state_totals:
  "map_of (state_totals rows) k =
     (if k \<in> State ` set rows then Some (state_total rows k) else None)"
  by (simp add: state_totals_def map_of_map_restrict restrict_map_def)

lemma sorted_state_totals: "sorted_wrt (<) (map fst (state_totals rows))"
  by (simp add: state_totals_def comp_def strict_sorted_iff)

lemma lookup0_groupby_state_sum: "lookup0 (groupby_state_sum rows) s = state_total rows s"
proof (cases "s \<in> State ` set rows")
  case True
  then show ?thesis by (simp add: lookup0_def map_of_groupby_state_sum)
next
  case False
  then have "filter (\<lambda>r. State r = s) rows = []"
    by (auto simp: filter_empty_conv)
  with False show ?thesis
    by (simp add: lookup0_def map_of_groupby_state_sum state_total_def)
qed

lemma state_total_filter:
  "state_total (filter P rows) s = pd_sum (map COVID_19_Deaths (filter (\<lambda>r. State r = s \<and> P r) rows))"
  by (simp add: state_total_def conj_commute)

lemma state_total_filter_le:
  assumes "wf_table rows"
  shows "state_total (filter P rows) s \<le> state_total rows s"
proof -
  have "state_total (filter P rows) s =
      pd_sum (map COVID_19_Deaths (filter P (filter (\<lambda>r. State r = s) rows)))"
    by (simp add: state_total_filter conj_commute)
  also have "\<dots> \<le> pd_sum (map COVID_19_Deaths (filter (\<lambda>r. State r = s) rows))"
    using assms by (intro pd_sum_filter_le) (auto dest: wf_table_deaths)
  finally show ?thesis by (simp add: state_total_def)
qed

lemma state_deaths_rows:
  "state_deaths sel deaths =
     groupby_state_sum (if sel = Some ''All ages'' then deaths
                        else filter (\<lambda>r. sel_eq (Age_Group r) sel) deaths)"
  by (simp add: state_deaths_def)

lemma lookup0_state_deaths_age:
  "a \<noteq> ''All ages'' \<Longrightarrow>
   lookup0 (state_deaths (Some a) deaths) s =
     pd_sum (map COVID_19_Deaths (filter (\<lambda>r. State r = s \<and> Age_Group r = a) deaths))"
  by (simp add: state_deaths_def lookup0_groupby_state_sum state_total_filter eq_commute)

lemma state_deaths_Nil: "groupby_state_sum [] = []"
  by (simp add: groupby_state_sum_def)

lemma range_color_Some:
  "range_color ps = Some (lo, hi) \<Longrightarrow>
   ps \<noteq> [] \<and> lo = of_int (Min (set (map snd ps))) \<and> hi = of_int (Max (set (map snd ps))) * 0.025"
  by (auto simp: range_color_def split: if_splits)

lemma scaled_range_inverted:
  assumes "hi = real_of_int M * 0.025" and "lo = real_of_int m"
  shows "hi < lo \<longleftrightarrow> M < 40 * m"
proof -
  have "(hi < lo) = (real_of_int M < 40 * real_of_int m)"
    using assms by auto
  also have "\<dots> = (M < 40 * m)"
    by (metis of_int_less_iff of_int_mult of_int_numeral)
  finally show ?thesis .
qed

section \<open>Properties\<close>

text \<open>
  C7. The one-pass group-by (pandas' \<open>groupby("State").sum()\<close>) equals the reference:
  one entry per distinct state, in ascending order of the state name, carrying the sum of
  that state's death counts with missing counts taken as 0.
\<close>

theorem groupby_state_sum_eq_reference: "groupby_state_sum rows = state_totals rows"
proof (rule sorted_alist_unique)
  show "sorted_wrt (<) (map fst (groupby_state_sum rows))"
    by (rule sorted_groupby_state_sum)
  show "sorted_wrt (<) (map fst (state_totals rows))"
    by (rule sorted_state_totals)
  show "map_of (groupby_state_sum rows) = map_of (state_totals rows)"
    by (simp add: fun_eq_iff map_of_groupby_state_sum map_of_state_totals)
qed

text \<open>
  C8. Under \<open>'All ages'\<close> the map shows every state present in the table, each with the sum
  of the death counts of all its rows, across every age group and every condition, and no
  other state.
\<close>

theorem state_deaths_all_ages:
  "map_of (state_deaths (Some ''All ages'') deaths) s =
     (if s \<in> State ` set deaths
      then Some (pd_sum (map COVID_19_Deaths (filter (\<lambda>r. State r = s) deaths)))
      else None)"
  by (simp add: state_deaths_def map_of_groupby_state_sum state_total_def)

text \<open>
  C9. Under any other age group the map shows exactly the states with a row of that age
  group, each with the sum of the death counts of those rows.
\<close>

theorem state_deaths_age:
  assumes "a \<noteq> ''All ages''"
  shows "map_of (state_deaths (Some a) deaths) s =
     (if \<exists>r\<in>set deaths. State r = s \<and> Age_Group r = a
      then Some (pd_sum (map COVID_19_Deaths (filter (\<lambda>r. State r = s \<and> Age_Group r = a) deaths)))
      else None)"
  using assms
  by (auto simp: state_deaths_def map_of_groupby_state_sum state_total_filter eq_commute)

theorem state_deaths_age_witness:
  "''65-74'' \<noteq> ''All ages'' \<and>
   map_of (state_deaths (Some ''65-74'') example_deaths) ''California'' = Some 620"
proof -
  have "map_of (state_deaths (Some ''65-74'') example_deaths) ''California'' = Some 620"
    using state_deaths_age [of "''65-74''" example_deaths "''California''"]
    by (simp add: example_deaths_def)
  then show ?thesis by simp
qed

text \<open>
  C10. With no negative death count in the table, a state's total under any selection is
  at most its total under \<open>'All ages'\<close>, and a state shown under a selection is also
  shown under \<open>'All ages'\<close>.
\<close>

theorem state_deaths_le_all_ages:
  assumes "wf_table deaths" and "map_of (state_deaths sel deaths) s = Some x"
  shows "\<exists>y. map_of (state_deaths (Some ''All ages'') deaths) s = Some y \<and> x \<le> y"
proof -
  define P :: "mortality_row \<Rightarrow> bool" where "P = (\<lambda>r. sel = Some ''All ages'' \<or> sel_eq (Age_Group r) sel)"
  have eq: "state_deaths sel deaths = groupby_state_sum (filter P deaths)"
    by (auto simp: state_deaths_def P_def intro: arg_cong [where f = groupby_state_sum])
  from assms(2) have "s \<in> State ` set (filter P deaths)" and x: "x = state_total (filter P deaths) s"
    by (simp_all add: eq map_of_groupby_state_sum split: if_splits)
  then have "s \<in> State ` set deaths" by auto
  moreover have "x \<le> state_total deaths s"
    using x state_total_filter_le [OF assms(1)] by simp
  ultimately show ?thesis
    by (simp add: state_deaths_def map_of_groupby_state_sum)
qed

theorem state_deaths_le_all_ages_witness:
  "wf_table example_deaths \<and>
   map_of (state_deaths (Some ''65-74'') example_deaths) ''Texas'' = Some 300 \<and>
   map_of (state_deaths (Some ''All ages'') example_deaths) ''Texas'' = Some 300"
proof -
  have wf: "wf_table example_deaths"
    by (simp add: example_deaths_def wf_row_def nonneg_cell_def)
  have sel: "map_of (state_deaths (Some ''65-74'') example_deaths) ''Texas'' = Some 300"
    by (simp add: example_deaths_def state_deaths_def groupby_state_sum_def groupby_step_def)
  obtain y where "map_of (state_deaths (Some ''All ages'') example_deaths) ''Texas'' = Some y"
    using state_deaths_le_all_ages [OF wf sel] by blast
  moreover have "map_of (state_deaths (Some ''All ages'') example_deaths) ''Texas'' = Some 300"
    by (simp add: example_deaths_def state_deaths_def groupby_state_sum_def groupby_step_def)
  ultimately show ?thesis using wf sel by simp
qed

text \<open>
  C11. A state's \<open>'All ages'\<close> total is the sum of its totals under each other age group
  present in the table, plus the death counts of its rows whose age group is literally
  \<open>'All ages'\<close>: where the data carries such aggregate rows, they are counted on top of
  the age bands.
\<close>

theorem state_deaths_all_ages_partition:
  "lookup0 (state_deaths (Some ''All ages'') deaths) s =
     (\<Sum>a\<in>Age_Group ` set deaths - {''All ages''}. lookup0 (state_deaths (Some a) deaths) s) +
     pd_sum (map COVID_19_Deaths (filter (\<lambda>r. State r = s \<and> Age_Group r = ''All ages'') deaths))"
proof -
  let ?K = "Age_Group ` set deaths"
  let ?xs = "filter (\<lambda>r. State r = s) deaths"
  let ?t = "\<lambda>a. pd_sum (map COVID_19_Deaths (filter (\<lambda>r. State r = s \<and> Age_Group r = a) deaths))"
  have part: "state_total deaths s = (\<Sum>a\<in>?K. ?t a)"
    using pd_sum_partition [of ?K Age_Group ?xs COVID_19_Deaths]
    by (auto simp: state_total_def conj_commute)
  have split: "(\<Sum>a\<in>?K. ?t a) = (\<Sum>a\<in>?K - {''All ages''}. ?t a) + ?t ''All ages''"
  proof (cases "''All ages'' \<in> ?K")
    case True
    then show ?thesis by (simp add: sum.remove add.commute)
  next
    case False
    then have "filter (\<lambda>r. State r = s \<and> Age_Group r = ''All ages'') deaths = []"
      by (force simp: filter_empty_conv)
    with False show ?thesis by simp
  qed
  have "(\<Sum>a\<in>?K - {''All ages''}. lookup0 (state_deaths (Some a) deaths) s) =
        (\<Sum>a\<in>?K - {''All ages''}. ?t a)"
    by (rule sum.cong) (simp_all add: lookup0_state_deaths_age)
  moreover have "lookup0 (state_deaths (Some ''All ages'') deaths) s = state_total deaths s"
    by (simp add: state_deaths_def lookup0_groupby_state_sum)
  ultimately show ?thesis using part split by simp
qed

text \<open>
  C12. An age group with no row gives an empty map rather than an error, and the
  notebook's colour range is then undefined (pandas' \<open>min\<close>/\<open>max\<close> of an empty frame).
\<close>

theorem update_time_series_dashboard_empty:
  assumes "a \<noteq> ''All ages''" and "\<forall>r\<in>set deaths. Age_Group r \<noteq> a"
  shows "map_locations (update_time_series_dashboard deaths (Some a)) = [] \<and>
         usa_range_color (update_usa_map deaths (Some a)) = None"
proof -
  have "filter (\<lambda>r. sel_eq (Age_Group r) (Some a)) deaths = []"
    using assms(2) by (auto simp: filter_empty_conv)
  with assms(1) have "state_deaths (Some a) deaths = []"
    by (simp add: state_deaths_def state_deaths_Nil)
  then show ?thesis
    by (simp add: update_time_series_dashboard_def update_usa_map_def range_color_def)
qed

theorem update_time_series_dashboard_empty_witness:
  "''0-24'' \<noteq> ''All ages'' \<and>
   map_locations (update_time_series_dashboard example_deaths (Some ''0-24'')) = [] \<and>
   usa_range_color (update_usa_map example_deaths (Some ''0-24'')) = None"
proof -
  have "\<forall>r\<in>set example_deaths. Age_Group r \<noteq> ''0-24''"
    by (simp add: example_deaths_def)
  then show ?thesis
    using update_time_series_dashboard_empty [of "''0-24''" example_deaths] by simp
qed

text \<open>
  C13. The notebook's colour range \<open>[min, max * 0.025]\<close> is inverted (upper bound below
  the lower one) exactly when the smallest state total exceeds one fortieth of the largest.
\<close>

theorem update_usa_map_range_inverted:
  assumes "usa_range_color (update_usa_map deaths sel) = Some (lo, hi)"
  shows "hi < lo \<longleftrightarrow>
    Max (set (usa_color (update_usa_map deaths sel))) < 40 * Min (set (usa_color (update_usa_map deaths sel)))"
proof -
  let ?ps = "state_deaths sel deaths"
  have "range_color ?ps = Some (lo, hi)"
    using assms by (simp add: update_usa_map_def Let_def)
  from range_color_Some [OF this]
  have "lo = of_int (Min (set (map snd ?ps)))" and "hi = of_int (Max (set (map snd ?ps))) * 0.025"
    by simp_all
  then have "hi < lo \<longleftrightarrow> Max (set (map snd ?ps)) < 40 * Min (set (map snd ?ps))"
    by (intro scaled_range_inverted)
  then show ?thesis
    by (simp add: update_usa_map_def Let_def)
qed

theorem update_usa_map_range_inverted_witness:
  "usa_range_color (update_usa_map example_deaths (Some ''All ages'')) = Some (300, 15.5) \<and>
   (15.5::real) < 300"
proof -
  have r: "usa_range_color (update_usa_map example_deaths (Some ''All ages'')) = Some (300, 15.5)"
    by (simp add: example_deaths_def update_usa_map_def state_deaths_def groupby_state_sum_def
                  groupby_step_def range_color_def)
  have "(15.5::real) < 300 \<longleftrightarrow>
    Max (set (usa_color (update_usa_map example_deaths (Some ''All ages'')))) <
    40 * Min (set (usa_color (update_usa_map example_deaths (Some ''All ages''))))"
    by (rule update_usa_map_range_inverted [OF r])
  then show ?thesis using r by simp
qed

end
