(* ===== verification/Dashboard.thy ===== *)
theory Dashboard
  imports ConditionFilter StateAggregator
begin

text \<open>
  The Dash front end: the layouts of \<^verbatim>\<open>src/app.py\<close> (the tab component, lines 27--33;
  \<open>layout_tab1\<close>, lines 36--57; \<open>layout_tab2\<close>, lines 59--74), the router
  \<open>render_tab_content\<close> (lines 77--85), and the notebook's first app
  (\<^verbatim>\<open>src/covid_analysis.py\<close> lines 159--190). A dropdown is a record of its id,
  options, current value and whether it may be cleared (\<open>clearable\<close>, which Dash
  defaults to true and \<^verbatim>\<open>app.py\<close> sets to false).

  The browser is the environment: it switches tabs, picks an option of a mounted
  dropdown, or clears a clearable one. These are the three rules of the step relation
  \<open>ui_step\<close>, parameterised by the tab values and the router so that both apps are
  instances. Switching tabs fires \<open>render_tab_content\<close>, which mounts a fresh layout
  with its default values. \<open>app_view\<close> is what the app's callbacks compute in a state:
  Dash passes the current values of the dropdowns with the ids named in the
  \<open>Input\<close>s to \<open>update_mortality_dashboard\<close> or \<open>update_time_series_dashboard\<close>.
\<close>

record dropdown =
  dd_id :: string
  dd_options :: "string list"
  dd_value :: selector
  dd_clearable :: bool

definition age_range_options :: "string list" where
  "age_range_options =
    [''0-24'', ''25-34'', ''35-44'', ''45-54'', ''55-64'', ''65-74'', ''75-84'', ''85+'',
     ''Not stated'', ''All ages'']"

definition layout_tab1 :: "dropdown list" where
  "layout_tab1 =
    [\<lparr>dd_id = ''age-range-dropdown-1'', dd_options = age_range_options,
      dd_value = Some ''All ages'', dd_clearable = False\<rparr>,
     \<lparr>dd_id = ''condition-dropdown'', dd_options = conditions,
      dd_value = Some (conditions ! 0), dd_clearable = False\<rparr>]"

definition layout_tab2 :: "dropdown list" where
  "layout_tab2 =
    [\<lparr>dd_id = ''age-range-dropdown-2'', dd_options = age_range_options,
      dd_value = Some ''All ages'', dd_clearable = False\<rparr>]"

definition render_tab_content :: "string \<Rightarrow> dropdown list option" where
  "render_tab_content tab =
     (if tab = ''tab-1'' then Some layout_tab1
      else if tab = ''tab-2'' then Some layout_tab2
      else None)"

definition tab_values :: "string list" where
  "tab_values = [''tab-1'', ''tab-2'']"

record ui_state =
  ui_tab :: string
  ui_content :: "dropdown list option"

definition app_init :: ui_state where
  "app_init = \<lparr>ui_tab = ''tab-1'', ui_content = render_tab_content ''tab-1''\<rparr>"

inductive ui_step ::
  "string list \<Rightarrow> (string \<Rightarrow> dropdown list option) \<Rightarrow> ui_state \<Rightarrow> ui_state \<Rightarrow> bool"
  for tabs router where
  switch_tab: "t \<in> set tabs \<Longrightarrow> t \<noteq> ui_tab s \<Longrightarrow>
     ui_step tabs router s \<lparr>ui_tab = t, ui_content = router t\<rparr>"
| pick: "ui_content s = Some ds \<Longrightarrow> i < length ds \<Longrightarrow> v \<in> set (dd_options (ds ! i)) \<Longrightarrow>
     ui_step tabs router s (s\<lparr>ui_content := Some (ds[i := (ds ! i)\<lparr>dd_value := Some v\<rparr>])\<rparr>)"
| clear: "ui_content s = Some ds \<Longrightarrow> i < length ds \<Longrightarrow> dd_clearable (ds ! i) \<Longrightarrow>
     ui_step tabs router s (s\<lparr>ui_content := Some (ds[i := (ds ! i)\<lparr>dd_value := None\<rparr>])\<rparr>)"

inductive ui_reachable ::
  "string list \<Rightarrow> (string \<Rightarrow> dropdown list option) \<Rightarrow> ui_state \<Rightarrow> ui_state \<Rightarrow> bool"
  for tabs router init where
  start: "ui_reachable tabs router init init"
| step: "ui_reachable tabs router init s \<Longrightarrow> ui_step tabs router s s' \<Longrightarrow>
     ui_reachable tabs router init s'"

definition dd_value_of :: "dropdown list \<Rightarrow> string \<Rightarrow> selector" where
  "dd_value_of ds i = (case find (\<lambda>d. dd_id d = i) ds of None \<Rightarrow> None | Some d \<Rightarrow> dd_value d)"

datatype app_view =
    Tab1View "string \<times> bar_figure"
  | Tab2View choropleth
  | NoContent

definition app_view :: "deaths_table \<Rightarrow> ui_state \<Rightarrow> app_view" where
  "app_view deaths s =
     (case ui_content s of
        None \<Rightarrow> NoContent
      | Some ds \<Rightarrow>
          if ui_tab s = ''tab-1''
          then Tab1View (update_mortality_dashboard deaths
                 (dd_value_of ds ''age-range-dropdown-1'') (dd_value_of ds ''condition-dropdown''))
          else Tab2View (update_time_series_dashboard deaths
                 (dd_value_of ds ''age-range-dropdown-2'')))"

definition app1_layout :: "dropdown list" where
  "app1_layout =
    [\<lparr>dd_id = ''age-range-dropdown'', dd_options = age_range_options,
      dd_value = Some ''All ages'', dd_clearable = True\<rparr>,
     \<lparr>dd_id = ''condition-dropdown'', dd_options = conditions_nb,
      dd_value = Some (conditions_nb ! 0), dd_clearable = True\<rparr>]"

definition app1_init :: ui_state where
  "app1_init = \<lparr>ui_tab = '''', ui_content = Some app1_layout\<rparr>"

text \<open>
  The invariant: the mounted dropdowns agree with the layout the router gives for the
  current tab in id, options and clearability, and each holds one of its options, or
  \<open>None\<close> only if it is clearable.
\<close>

definition dd_conforms :: "dropdown \<Rightarrow> dropdown \<Rightarrow> bool" where
  "dd_conforms d d0 \<longleftrightarrow>
     dd_id d = dd_id d0 \<and> dd_options d = dd_options d0 \<and> dd_clearable d = dd_clearable d0 \<and>
     (case dd_value d of None \<Rightarrow> dd_clearable d | Some v \<Rightarrow> v \<in> set (dd_options d))"

definition ui_inv :: "(string \<Rightarrow> dropdown list option) \<Rightarrow> ui_state \<Rightarrow> bool" where
  "ui_inv router s \<longleftrightarrow>
     (case (ui_content s, router (ui_tab s)) of
        (Some ds, Some lay) \<Rightarrow> list_all2 dd_conforms ds lay
      | _ \<Rightarrow> False)"

definition router_ok :: "string list \<Rightarrow> (string \<Rightarrow> dropdown list option) \<Rightarrow> bool" where
  "router_ok tabs router \<longleftrightarrow>
     list_all (\<lambda>t. case router t of None \<Rightarrow> False | Some lay \<Rightarrow> list_all2 dd_conforms lay lay) tabs"

section \<open>Lemmas\<close>

lemma dd_conforms_set_value:
  "dd_conforms d d0 \<Longrightarrow> v \<in> set (dd_options d) \<Longrightarrow> dd_conforms (d\<lparr>dd_value := Some v\<rparr>) d0"
  "dd_conforms d d0 \<Longrightarrow> dd_clearable d \<Longrightarrow> dd_conforms (d\<lparr>dd_value := None\<rparr>) d0"
  by (simp_all add: dd_conforms_def)

lemma list_all2_update_left:
  "list_all2 P xs ys \<Longrightarrow> i < length xs \<Longrightarrow> P x (ys ! i) \<Longrightarrow> list_all2 P (xs[i := x]) ys"
  using list_all2_update_cong [of P xs ys x "ys ! i" i] by simp

lemma ui_step_inv:
  assumes "ui_step tabs router s s'" and "router_ok tabs router" and "ui_inv router s"
  shows "ui_inv router s'"
  using assms
proof (induction rule: ui_step.induct)
  case (switch_tab t s)
  then show ?case
    by (auto simp: ui_inv_def router_ok_def list_all_iff split: option.splits)
next
  case (pick s ds i v)
  then obtain lay where lay: "router (ui_tab s) = Some lay" and c: "list_all2 dd_conforms ds lay"
    by (auto simp: ui_inv_def split: option.splits)
  with pick.hyps have "dd_conforms (ds ! i) (lay ! i)"
    by (simp add: list_all2_nthD)
  with pick.hyps c lay show ?case
    by (simp add: ui_inv_def list_all2_update_left dd_conforms_set_value)
next
  case (clear s ds i)
  then obtain lay where lay: "router (ui_tab s) = Some lay" and c: "list_all2 dd_conforms ds lay"
    by (auto simp: ui_inv_def split: option.splits)
  with clear.hyps have "dd_conforms (ds ! i) (lay ! i)"
    by (simp add: list_all2_nthD)
  with clear.hyps c lay show ?case
    by (simp add: ui_inv_def list_all2_update_left dd_conforms_set_value)
qed

lemma ui_reachable_inv:
  assumes "ui_reachable tabs router init s" and "router_ok tabs router" and "ui_inv router init"
  shows "ui_inv router s"
  using assms by (induction rule: ui_reachable.induct) (auto intro: ui_step_inv)

lemma app_router_ok: "router_ok tab_values render_tab_content"
  by (simp add: router_ok_def tab_values_def render_tab_content_def layout_tab1_def
      layout_tab2_def dd_conforms_def age_range_options_def conditions_def)

lemma app_init_inv: "ui_inv render_tab_content app_init"
  by (simp add: ui_inv_def app_init_def render_tab_content_def layout_tab1_def
      dd_conforms_def age_range_options_def conditions_def)

lemma app_reachable_inv:
  "ui_reachable tab_values render_tab_content app_init s \<Longrightarrow> ui_inv render_tab_content s"
  using ui_reachable_inv app_router_ok app_init_inv by blast

lemma conforms_tab1:
  assumes "list_all2 dd_conforms ds layout_tab1"
  shows "\<exists>a c. a \<in> set age_range_options \<and> c \<in> set conditions \<and>
     dd_value_of ds ''age-range-dropdown-1'' = Some a \<and> dd_value_of ds ''condition-dropdown'' = Some c"
  using assms
  by (auto simp: layout_tab1_def list_all2_Cons2 dd_conforms_def dd_value_of_def split: option.splits)

lemma conforms_tab2:
  assumes "list_all2 dd_conforms ds layout_tab2"
  shows "\<exists>a. a \<in> set age_range_options \<and> dd_value_of ds ''age-range-dropdown-2'' = Some a"
  using assms
  by (auto simp: layout_tab2_def list_all2_Cons2 dd_conforms_def dd_value_of_def split: option.splits)

section \<open>Properties\<close>

text \<open>
  C14. In every state the browser can reach, the app shows one of its two tabs, and the
  callback of that tab receives an age range among the dropdown's options and, on the
  first tab, a condition among \<open>conditions\<close>: the callbacks never see a cleared or
  unknown selection, and the router's \<open>None\<close> branch is never taken.
\<close>

theorem app_callbacks_valid:
  assumes "ui_reachable tab_values render_tab_content app_init s"
  shows "(\<exists>a c. a \<in> set age_range_options \<and> c \<in> set conditions \<and>
            app_view deaths s = Tab1View (update_mortality_dashboard deaths (Some a) (Some c))) \<or>
         (\<exists>a. a \<in> set age_range_options \<and>
            app_view deaths s = Tab2View (update_time_series_dashboard deaths (Some a)))"
proof -
  from app_reachable_inv [OF assms] obtain ds lay where
    ds: "ui_content s = Some ds" and lay: "render_tab_content (ui_tab s) = Some lay"
    and c: "list_all2 dd_conforms ds lay"
    by (auto simp: ui_inv_def split: option.splits)
  show ?thesis
  proof (cases "ui_tab s = ''tab-1''")
    case True
    with lay c have "list_all2 dd_conforms ds layout_tab1"
      by (simp add: render_tab_content_def)
    then obtain a c where a: "a \<in> set age_range_options" and c: "c \<in> set conditions"
      and v: "dd_value_of ds ''age-range-dropdown-1'' = Some a"
             "dd_value_of ds ''condition-dropdown'' = Some c"
      by (blast dest: conforms_tab1)
    with ds True have "app_view deaths s = Tab1View (update_mortality_dashboard deaths (Some a) (Some c))"
      by (simp add: app_view_def)
    with a c show ?thesis by blast
  next
    case False
    with lay c have "list_all2 dd_conforms ds layout_tab2"
      by (simp add: render_tab_content_def split: if_splits)
    with ds False show ?thesis
      by (auto simp: app_view_def dest!: conforms_tab2)
  qed
qed

theorem app_callbacks_valid_witness:
  "ui_reachable tab_values render_tab_content app_init app_init \<and>
   ((\<exists>a c. a \<in> set age_range_options \<and> c \<in> set conditions \<and>
       app_view example_deaths app_init =
         Tab1View (update_mortality_dashboard example_deaths (Some a) (Some c))) \<or>
    (\<exists>a. a \<in> set age_range_options \<and>
       app_view example_deaths app_init =
         Tab2View (update_time_series_dashboard example_deaths (Some a))))"
  using app_callbacks_valid [OF ui_reachable.start, of example_deaths] ui_reachable.start
  by blast

text \<open>
  C15. Switching tabs discards the selections. \<open>render_tab_content\<close> returns a fresh
  \<open>layout_tab1()\<close> or \<open>layout_tab2()\<close>, and none of their dropdowns sets Dash's
  \<open>persistence\<close>, so the newly mounted dropdowns carry the layout's \<open>value=\<close>
  defaults. Whatever was selected before, the switch makes the app show the first tab for
  \<open>'All ages'\<close> and the first condition, or the map for \<open>'All ages'\<close>.
\<close>

theorem app_switch_resets:
  assumes "ui_step tab_values render_tab_content s s'" and "ui_tab s' \<noteq> ui_tab s"
  shows "app_view deaths s' =
           (if ui_tab s' = ''tab-1''
            then Tab1View (update_mortality_dashboard deaths (Some ''All ages'') (Some ''Influenza and pneumonia''))
            else Tab2View (update_time_series_dashboard deaths (Some ''All ages'')))"
  using assms
proof (cases rule: ui_step.cases)
  case (switch_tab t)
  then have "t = ''tab-1'' \<or> t = ''tab-2''" by (simp add: tab_values_def)
  with switch_tab show ?thesis
    by (auto simp: app_view_def render_tab_content_def layout_tab1_def layout_tab2_def
        dd_value_of_def conditions_def)
qed (use assms(2) in simp_all)

theorem app_switch_resets_witness:
  "ui_step tab_values render_tab_content
     (app_init\<lparr>ui_tab := ''tab-2'', ui_content := Some [hd layout_tab2\<lparr>dd_value := Some ''85+''\<rparr>]\<rparr>)
     \<lparr>ui_tab = ''tab-1'', ui_content = render_tab_content ''tab-1''\<rparr> \<and>
   app_view example_deaths \<lparr>ui_tab = ''tab-1'', ui_content = render_tab_content ''tab-1''\<rparr> =
     Tab1View (update_mortality_dashboard example_deaths (Some ''All ages'') (Some ''Influenza and pneumonia''))"
proof -
  let ?s = "app_init\<lparr>ui_tab := ''tab-2'', ui_content := Some [hd layout_tab2\<lparr>dd_value := Some ''85+''\<rparr>]\<rparr>"
  let ?s' = "\<lparr>ui_tab = ''tab-1'', ui_content = render_tab_content ''tab-1''\<rparr>"
  have st: "ui_step tab_values render_tab_content ?s ?s'"
    using ui_step.switch_tab [of "''tab-1''" tab_values ?s render_tab_content]
    by (simp add: tab_values_def)
  have "app_view example_deaths ?s' =
          (if ui_tab ?s' = ''tab-1''
           then Tab1View (update_mortality_dashboard example_deaths (Some ''All ages'') (Some ''Influenza and pneumonia''))
           else Tab2View (update_time_series_dashboard example_deaths (Some ''All ages'')))"
    by (rule app_switch_resets [OF st]) simp
  with st show ?thesis by simp
qed

text \<open>
  C16. The notebook's app leaves its dropdowns clearable: a reachable state has the age
  dropdown cleared, and then its callback's filter returns no row for any table, while the
  status text reads \<open>Age Range: None\<close>.
\<close>

theorem app1_cleared_reachable:
  "\<exists>s. ui_reachable [] (\<lambda>_. Some app1_layout) app1_init s \<and>
       dd_value_of (the (ui_content s)) ''age-range-dropdown'' = None \<and>
       (\<forall>deaths. update_output_filter (dd_value_of (the (ui_content s)) ''age-range-dropdown'')
                   (dd_value_of (the (ui_content s)) ''condition-dropdown'') deaths = [] \<and>
          take 15 (fst (update_output deaths (dd_value_of (the (ui_content s)) ''age-range-dropdown'')
                   (dd_value_of (the (ui_content s)) ''condition-dropdown''))) = ''Age Range: None'')"
proof -
  let ?s = "app1_init\<lparr>ui_content := Some (app1_layout[0 := (app1_layout ! 0)\<lparr>dd_value := None\<rparr>])\<rparr>"
  have step: "ui_step [] (\<lambda>_. Some app1_layout) app1_init ?s"
    by (rule ui_step.clear) (simp_all add: app1_init_def app1_layout_def)
  have r: "ui_reachable [] (\<lambda>_. Some app1_layout) app1_init ?s"
    by (rule ui_reachable.step [OF ui_reachable.start step])
  have v: "dd_value_of (the (ui_content ?s)) ''age-range-dropdown'' = None"
    by (simp add: app1_init_def app1_layout_def dd_value_of_def)
  have "\<forall>deaths. update_output_filter None (dd_value_of (the (ui_content ?s)) ''condition-dropdown'') deaths = [] \<and>
      take 15 (fst (update_output deaths None (dd_value_of (the (ui_content ?s)) ''condition-dropdown''))) =
        ''Age Range: None''"
    by (simp add: update_output_filter_def update_output_def output_text_def Let_def)
  with r v show ?thesis by (intro exI [of _ ?s]) simp
qed

end
