(* ===== verification/Sessions.thy ===== *)
theory Sessions
  imports Dashboard
begin

text \<open>
  Whole sessions with the dashboards. The notebook's second app (\<^verbatim>\<open>src/covid_analysis.py\<close>
  lines 230--277: one clearable age dropdown and the map of \<open>update_usa_map\<close>) is an
  instance of the step relation \<open>ui_step\<close> with a single page, like the first notebook app.
  The theory shows what the user can always still do (liveness: from every reachable state
  each selection the dropdowns offer can be reached and is then what the callbacks
  display), and that the layouts are well formed (distinct ids, defaults among the options)
  and stay so in every reachable state.
\<close>

definition app2_layout :: "dropdown list" where
  "app2_layout =
    [\<lparr>dd_id = ''age-range-dropdown'', dd_options = age_range_options,
      dd_value = Some ''All ages'', dd_clearable = True\<rparr>]"

definition app2_init :: ui_state where
  "app2_init = \<lparr>ui_tab = '''', ui_content = Some app2_layout\<rparr>"

definition app2_view :: "deaths_table \<Rightarrow> ui_state \<Rightarrow> usa_map_figure option" where
  "app2_view deaths s =
     map_option (\<lambda>ds. update_usa_map deaths (dd_value_of ds ''age-range-dropdown'')) (ui_content s)"

text \<open>
  The abstraction from the notebook's map figure to the app's: the same figure without the
  colour range.
\<close>

definition usa_map_choropleth :: "usa_map_figure \<Rightarrow> choropleth" where
  "usa_map_choropleth f =
     \<lparr>map_locations = usa_locations f, map_color = usa_color f, map_title = usa_title f\<rparr>"

text \<open>
  A layout is well formed when its dropdown ids are distinct, every dropdown offers a
  non-empty list of distinct options, and its value is one of them (or \<open>None\<close> on a
  clearable dropdown).
\<close>

definition layout_wf :: "dropdown list \<Rightarrow> bool" where
  "layout_wf lay \<longleftrightarrow>
     distinct (map dd_id lay) \<and>
     list_all (\<lambda>d. dd_options d \<noteq> [] \<and> distinct (dd_options d) \<and>
       (case dd_value d of None \<Rightarrow> dd_clearable d | Some v \<Rightarrow> v \<in> set (dd_options d))) lay"

section \<open>Lemmas\<close>

lemma ui_reachable_trans:
  assumes "ui_reachable tabs router s t" and "ui_reachable tabs router t u"
  shows "ui_reachable tabs router s u"
  using assms(2,1) by induction (auto intro: ui_reachable.step)

lemma ui_reachable_pick:
  assumes "ui_content s = Some ds" and "i < length ds" and "v \<in> set (dd_options (ds ! i))"
  shows "ui_reachable tabs router s (s\<lparr>ui_content := Some (ds[i := (ds ! i)\<lparr>dd_value := Some v\<rparr>])\<rparr>)"
  using ui_reachable.step [OF ui_reachable.start ui_step.pick [OF assms]] .

lemma ui_reachable_switch:
  assumes "t \<in> set tabs"
  shows "\<exists>s'. ui_reachable tabs router s s' \<and> ui_tab s' = t \<and>
           (t \<noteq> ui_tab s \<longrightarrow> ui_content s' = router t) \<and> (t = ui_tab s \<longrightarrow> s' = s)"
proof (cases "t = ui_tab s")
  case True
  then show ?thesis using ui_reachable.start by blast
next
  case False
  with assms have "ui_step tabs router s \<lparr>ui_tab = t, ui_content = router t\<rparr>"
    by (rule ui_step.switch_tab)
  with False show ?thesis using ui_reachable.step [OF ui_reachable.start] by fastforce
qed

lemma dd_value_of_pick:
  "dd_value_of [d\<lparr>dd_value := Some v\<rparr>] (dd_id d) = Some v"
  "dd_id d \<noteq> dd_id e \<Longrightarrow> dd_value_of [d\<lparr>dd_value := Some v\<rparr>, e\<lparr>dd_value := Some w\<rparr>] (dd_id d) = Some v"
  "dd_id d \<noteq> dd_id e \<Longrightarrow> dd_value_of [d\<lparr>dd_value := Some v\<rparr>, e\<lparr>dd_value := Some w\<rparr>] (dd_id e) = Some w"
  by (simp_all add: dd_value_of_def)

lemmas layout_defs =
  layout_tab1_def layout_tab2_def app1_layout_def app2_layout_def age_range_options_def
  conditions_nb_conditions

lemma app1_reachable_inv:
  "ui_reachable [] (\<lambda>_. Some app1_layout) app1_init s \<Longrightarrow> ui_inv (\<lambda>_. Some app1_layout) s"
  using ui_reachable_inv [of "[]" "\<lambda>_. Some app1_layout" app1_init s]
  by (simp add: router_ok_def ui_inv_def app1_init_def layout_defs dd_conforms_def conditions_def)

lemma layouts_wf:
  "layout_wf layout_tab1" "layout_wf layout_tab2" "layout_wf app1_layout" "layout_wf app2_layout"
  by (simp_all add: layout_wf_def layout_defs distinct_conditions) (simp_all add: conditions_def)

lemma app2_router_ok: "router_ok [] (\<lambda>_. Some app2_layout)"
  by (simp add: router_ok_def)

lemma app2_init_inv: "ui_inv (\<lambda>_. Some app2_layout) app2_init"
  by (simp add: ui_inv_def app2_init_def layout_defs dd_conforms_def)

lemma app2_reachable_inv:
  "ui_reachable [] (\<lambda>_. Some app2_layout) app2_init s \<Longrightarrow> ui_inv (\<lambda>_. Some app2_layout) s"
  using ui_reachable_inv app2_router_ok app2_init_inv by blast

lemma ui_reachable_pick1:
  assumes "ui_content s = Some [d]" and "v \<in> set (dd_options d)"
  shows "ui_reachable tabs router s (s\<lparr>ui_content := Some [d\<lparr>dd_value := Some v\<rparr>]\<rparr>)"
  using ui_reachable_pick [OF assms(1), of 0 v] assms(2) by simp

lemma ui_reachable_pick2:
  assumes "ui_content s = Some [d, e]" and "v \<in> set (dd_options d)" and "w \<in> set (dd_options e)"
  shows "ui_reachable tabs router s
           (s\<lparr>ui_content := Some [d\<lparr>dd_value := Some v\<rparr>, e\<lparr>dd_value := Some w\<rparr>]\<rparr>)"
proof -
  let ?s1 = "s\<lparr>ui_content := Some [d\<lparr>dd_value := Some v\<rparr>, e]\<rparr>"
  have "ui_reachable tabs router s ?s1"
    using ui_reachable_pick [OF assms(1), of 0 v] assms(2) by simp
  moreover have "ui_reachable tabs router ?s1
      (?s1\<lparr>ui_content := Some ([d\<lparr>dd_value := Some v\<rparr>, e][1 := e\<lparr>dd_value := Some w\<rparr>])\<rparr>)"
    using ui_reachable_pick [of ?s1 "[d\<lparr>dd_value := Some v\<rparr>, e]" 1 w] assms(3) by simp
  ultimately show ?thesis by (simp add: ui_reachable_trans)
qed

lemma ui_reachable_to_tab:
  assumes "ui_reachable tabs router init s" and "router_ok tabs router" and "ui_inv router init"
    and "t \<in> set tabs"
  shows "\<exists>s' ds lay. ui_reachable tabs router s s' \<and> ui_tab s' = t \<and> ui_content s' = Some ds \<and>
           router t = Some lay \<and> list_all2 dd_conforms ds lay"
proof -
  from ui_reachable_switch [OF assms(4), of router s] obtain s' where
    r: "ui_reachable tabs router s s'" and t: "ui_tab s' = t"
    and sw: "t \<noteq> ui_tab s \<longrightarrow> ui_content s' = router t" and st: "t = ui_tab s \<longrightarrow> s' = s"
    by blast
  have "ui_inv router s'"
  proof (cases "t = ui_tab s")
    case True
    with st ui_reachable_inv [OF assms(1-3)] show ?thesis by simp
  next
    case False
    with sw t assms(2,4) show ?thesis
      by (auto simp: ui_inv_def router_ok_def list_all_iff split: option.splits)
  qed
  with r t show ?thesis by (auto simp: ui_inv_def split: option.splits)
qed

lemma conforms_wf:
  assumes "list_all2 dd_conforms ds lay" and "layout_wf lay"
  shows "layout_wf ds"
proof -
  from assms(1) have ids: "map dd_id ds = map dd_id lay" and opts: "map dd_options ds = map dd_options lay"
    by (induction rule: list_all2_induct) (simp_all add: dd_conforms_def)
  from assms(1) have "list_all (\<lambda>d. case dd_value d of None \<Rightarrow> dd_clearable d
                                   | Some v \<Rightarrow> v \<in> set (dd_options d)) ds"
    by (induction rule: list_all2_induct) (simp_all add: dd_conforms_def)
  moreover have "list_all (\<lambda>d. dd_options d \<noteq> [] \<and> distinct (dd_options d)) ds"
    using assms(2) opts by (simp add: layout_wf_def list_all_iff) (metis list.set_map imageE image_eqI)
  ultimately show ?thesis
    using assms(2) ids by (simp add: layout_wf_def list_all_iff)
qed

section \<open>Properties\<close>

text \<open>
  C24. Liveness of the two-tab app: from every state the browser can reach, the user can
  still reach a state in which the first tab shows any chosen age range and condition, and
  one in which the second tab shows the map of any chosen age range. No sequence of
  interactions locks a selection out.
\<close>

theorem app_selection_live:
  assumes reach: "ui_reachable tab_values render_tab_content app_init s"
    and a: "a \<in> set age_range_options" and c: "c \<in> set conditions"
  shows "(\<exists>s'. ui_reachable tab_values render_tab_content s s' \<and>
            app_view deaths s' = Tab1View (update_mortality_dashboard deaths (Some a) (Some c))) \<and>
         (\<exists>s'. ui_reachable tab_values render_tab_content s s' \<and>
            app_view deaths s' = Tab2View (update_time_series_dashboard deaths (Some a)))"
proof
  obtain s1 ds lay where r1: "ui_reachable tab_values render_tab_content s s1"
    and t1: "ui_tab s1 = ''tab-1''" and ds: "ui_content s1 = Some ds"
    and lay: "render_tab_content ''tab-1'' = Some lay" and cf: "list_all2 dd_conforms ds lay"
    using ui_reachable_to_tab [OF reach app_router_ok app_init_inv, of "''tab-1''"]
    by (auto simp: tab_values_def)
  from lay cf obtain d e where de: "ds = [d, e]" and
    ids: "dd_id d = ''age-range-dropdown-1''" "dd_id e = ''condition-dropdown''" and
    opts: "dd_options d = age_range_options" "dd_options e = conditions"
    by (auto simp: render_tab_content_def layout_tab1_def list_all2_Cons2 dd_conforms_def)
  let ?s2 = "s1\<lparr>ui_content := Some [d\<lparr>dd_value := Some a\<rparr>, e\<lparr>dd_value := Some c\<rparr>]\<rparr>"
  have "ui_reachable tab_values render_tab_content s ?s2"
    using ui_reachable_trans [OF r1 ui_reachable_pick2 [of s1 d e a c]] ds de opts a c by simp
  moreover have "app_view deaths ?s2 = Tab1View (update_mortality_dashboard deaths (Some a) (Some c))"
    using t1 ids dd_value_of_pick(2,3) [where d = d and e = e and v = a and w = c] by (simp add: app_view_def)
  ultimately show "\<exists>s'. ui_reachable tab_values render_tab_content s s' \<and>
            app_view deaths s' = Tab1View (update_mortality_dashboard deaths (Some a) (Some c))"
    by blast
next
  obtain s1 ds lay where r1: "ui_reachable tab_values render_tab_content s s1"
    and t1: "ui_tab s1 = ''tab-2''" and ds: "ui_content s1 = Some ds"
    and lay: "render_tab_content ''tab-2'' = Some lay" and cf: "list_all2 dd_conforms ds lay"
    using ui_reachable_to_tab [OF reach app_router_ok app_init_inv, of "''tab-2''"]
    by (auto simp: tab_values_def)
  from lay cf obtain d where de: "ds = [d]" and
    ids: "dd_id d = ''age-range-dropdown-2''" and opts: "dd_options d = age_range_options"
    by (auto simp: render_tab_content_def layout_tab2_def list_all2_Cons2 dd_conforms_def)
  let ?s2 = "s1\<lparr>ui_content := Some [d\<lparr>dd_value := Some a\<rparr>]\<rparr>"
  have "ui_reachable tab_values render_tab_content s ?s2"
    using ui_reachable_trans [OF r1 ui_reachable_pick1 [of s1 d a]] ds de opts a by simp
  moreover have "app_view deaths ?s2 = Tab2View (update_time_series_dashboard deaths (Some a))"
    using t1 ids dd_value_of_pick(1) [where d = d and v = a] by (simp add: app_view_def)
  ultimately show "\<exists>s'. ui_reachable tab_values render_tab_content s s' \<and>
            app_view deaths s' = Tab2View (update_time_series_dashboard deaths (Some a))"
    by blast
qed

theorem app_selection_live_witness:
  "ui_reachable tab_values render_tab_content app_init app_init \<and>
   ''85+'' \<in> set age_range_options \<and> ''Diabetes'' \<in> set conditions \<and>
   (\<exists>s'. ui_reachable tab_values render_tab_content app_init s' \<and>
      app_view example_deaths s' =
        Tab1View (update_mortality_dashboard example_deaths (Some ''85+'') (Some ''Diabetes''))) \<and>
   (\<exists>s'. ui_reachable tab_values render_tab_content app_init s' \<and>
      app_view example_deaths s' = Tab2View (update_time_series_dashboard example_deaths (Some ''85+'')))"
proof -
  have a: "''85+'' \<in> set age_range_options" by (simp add: age_range_options_def)
  have c: "''Diabetes'' \<in> set conditions" by (simp add: conditions_def)
  show ?thesis
    using app_selection_live [OF ui_reachable.start a c, of example_deaths] ui_reachable.start a c
    by blast
qed

text \<open>
  C25. Liveness of the notebook's map app: from every reachable state, in particular after
  the dropdown has been cleared, the user can reach a state whose map is the one of any
  chosen age range.
\<close>

theorem app2_selection_live:
  assumes reach: "ui_reachable [] (\<lambda>_. Some app2_layout) app2_init s"
    and a: "a \<in> set age_range_options"
  shows "\<exists>s'. ui_reachable [] (\<lambda>_. Some app2_layout) s s' \<and>
           app2_view deaths s' = Some (update_usa_map deaths (Some a))"
proof -
  from app2_reachable_inv [OF reach] obtain ds where ds: "ui_content s = Some ds"
    and cf: "list_all2 dd_conforms ds app2_layout"
    by (auto simp: ui_inv_def split: option.splits)
  from cf obtain d where de: "ds = [d]" and
    ids: "dd_id d = ''age-range-dropdown''" and opts: "dd_options d = age_range_options"
    by (auto simp: app2_layout_def list_all2_Cons2 dd_conforms_def)
  let ?s' = "s\<lparr>ui_content := Some [d\<lparr>dd_value := Some a\<rparr>]\<rparr>"
  have "ui_reachable [] (\<lambda>_. Some app2_layout) s ?s'"
    using ui_reachable_pick1 [of s d a] ds de opts a by simp
  moreover have "app2_view deaths ?s' = Some (update_usa_map deaths (Some a))"
    using ids dd_value_of_pick(1) [where d = d and v = a] by (simp add: app2_view_def)
  ultimately show ?thesis by blast
qed

theorem app2_selection_live_witness:
  "ui_reachable [] (\<lambda>_. Some app2_layout) app2_init app2_init \<and> ''Not stated'' \<in> set age_range_options \<and>
   (\<exists>s'. ui_reachable [] (\<lambda>_. Some app2_layout) app2_init s' \<and>
      app2_view example_deaths s' = Some (update_usa_map example_deaths (Some ''Not stated'')))"
proof -
  have a: "''Not stated'' \<in> set age_range_options" by (simp add: age_range_options_def)
  show ?thesis
    using app2_selection_live [OF ui_reachable.start a, of example_deaths] ui_reachable.start a
    by blast
qed

text \<open>
  C26. The notebook's map app leaves its dropdown clearable (Dash's default): clearing it is
  reachable, and the callback then receives \<open>None\<close>, matches no row, and draws an empty map
  titled with \<open>None\<close> and without a colour range (pandas' \<open>min\<close> and \<open>max\<close> of
  an empty column are NaN), for every table.
\<close>

theorem app2_cleared_map_empty:
  "\<exists>s. ui_reachable [] (\<lambda>_. Some app2_layout) app2_init s \<and>
       (\<forall>deaths. app2_view deaths s =
          Some \<lparr>usa_locations = [], usa_color = [],
                usa_title = ''Total COVID-19 Deaths per State - Age Group: None'',
                usa_range_color = None\<rparr>)"
proof -
  let ?s = "app2_init\<lparr>ui_content := Some (app2_layout[0 := (app2_layout ! 0)\<lparr>dd_value := None\<rparr>])\<rparr>"
  have "ui_step [] (\<lambda>_. Some app2_layout) app2_init ?s"
    by (rule ui_step.clear) (simp_all add: app2_init_def app2_layout_def)
  then have r: "ui_reachable [] (\<lambda>_. Some app2_layout) app2_init ?s"
    by (rule ui_reachable.step [OF ui_reachable.start])
  have "app2_view deaths ?s =
          Some \<lparr>usa_locations = [], usa_color = [],
                usa_title = ''Total COVID-19 Deaths per State - Age Group: None'',
                usa_range_color = None\<rparr>" for deaths
    by (simp add: app2_view_def app2_init_def app2_layout_def dd_value_of_def update_usa_map_def
        state_deaths_def state_deaths_Nil map_title_text_def range_color_def)
  with r show ?thesis by blast
qed

text \<open>
  C27. Every layout the programs mount is well formed: the dropdown ids of a layout are
  distinct, each dropdown offers a non-empty list of distinct options, and each default
  value is one of its options (both tabs of the app, both notebook apps). Well-formedness
  is moreover an invariant of every session: in each state reachable in the two-tab app or
  in either notebook app, a layout is mounted and it is well formed, whatever the user
  picked or cleared.
\<close>

theorem reachable_layouts_wf:
  "layout_wf layout_tab1 \<and> layout_wf layout_tab2 \<and> layout_wf app1_layout \<and> layout_wf app2_layout \<and>
   (ui_reachable tab_values render_tab_content app_init s \<longrightarrow>
      (\<exists>ds. ui_content s = Some ds \<and> layout_wf ds)) \<and>
   (ui_reachable [] (\<lambda>_. Some app1_layout) app1_init s \<longrightarrow>
      (\<exists>ds. ui_content s = Some ds \<and> layout_wf ds)) \<and>
   (ui_reachable [] (\<lambda>_. Some app2_layout) app2_init s \<longrightarrow>
      (\<exists>ds. ui_content s = Some ds \<and> layout_wf ds))"
proof (intro conjI impI)
  note wf = layouts_wf
  show "layout_wf layout_tab1" "layout_wf layout_tab2" "layout_wf app1_layout" "layout_wf app2_layout"
    by (fact wf)+
  show "\<exists>ds. ui_content s = Some ds \<and> layout_wf ds"
    if "ui_reachable tab_values render_tab_content app_init s"
    using app_reachable_inv [OF that] wf(1,2)
    by (auto simp: ui_inv_def render_tab_content_def split: option.splits if_splits
             intro: conforms_wf)
  show "\<exists>ds. ui_content s = Some ds \<and> layout_wf ds"
    if "ui_reachable [] (\<lambda>_. Some app1_layout) app1_init s"
    using app1_reachable_inv [OF that] wf(3)
    by (auto simp: ui_inv_def split: option.splits intro: conforms_wf)
  show "\<exists>ds. ui_content s = Some ds \<and> layout_wf ds"
    if "ui_reachable [] (\<lambda>_. Some app2_layout) app2_init s"
    using app2_reachable_inv [OF that] wf(4)
    by (auto simp: ui_inv_def split: option.splits intro: conforms_wf)
qed

theorem reachable_layouts_wf_witness:
  "ui_reachable tab_values render_tab_content app_init app_init \<and>
   ui_reachable [] (\<lambda>_. Some app1_layout) app1_init app1_init \<and>
   ui_reachable [] (\<lambda>_. Some app2_layout) app2_init app2_init \<and>
   layout_wf (the (ui_content app_init)) \<and> layout_wf (the (ui_content app1_init)) \<and>
   layout_wf (the (ui_content app2_init))"
proof -
  have "\<exists>ds. ui_content app_init = Some ds \<and> layout_wf ds"
    using reachable_layouts_wf [of app_init] ui_reachable.start by blast
  moreover have "\<exists>ds. ui_content app1_init = Some ds \<and> layout_wf ds"
    using reachable_layouts_wf [of app1_init] ui_reachable.start by blast
  moreover have "\<exists>ds. ui_content app2_init = Some ds \<and> layout_wf ds"
    using reachable_layouts_wf [of app2_init] ui_reachable.start by blast
  ultimately show ?thesis using ui_reachable.start by auto
qed

text \<open>
  C29. The notebook's map app is simulated by the app's second tab: whatever map the notebook
  app shows in a reachable state with a selected age range, the app shows the same map
  (same locations, values and title; the app has no colour range) in some reachable state.
  Only the notebook's cleared state (C26) has no counterpart.
\<close>

theorem app2_simulated_by_app:
  assumes reach: "ui_reachable [] (\<lambda>_. Some app2_layout) app2_init s"
    and sel: "dd_value_of (the (ui_content s)) ''age-range-dropdown'' \<noteq> None"
  shows "\<exists>t. ui_reachable tab_values render_tab_content app_init t \<and>
           app_view deaths t = Tab2View (usa_map_choropleth (the (app2_view deaths s)))"
proof -
  from app2_reachable_inv [OF reach] obtain ds where ds: "ui_content s = Some ds"
    and cf: "list_all2 dd_conforms ds app2_layout"
    by (auto simp: ui_inv_def split: option.splits)
  from cf sel ds obtain a where a: "a \<in> set age_range_options"
    and v: "dd_value_of ds ''age-range-dropdown'' = Some a"
    by (auto simp: app2_layout_def list_all2_Cons2 dd_conforms_def dd_value_of_def split: option.splits)
  let ?t1 = "\<lparr>ui_tab = ''tab-2'', ui_content = render_tab_content ''tab-2''\<rparr>"
  let ?t = "?t1\<lparr>ui_content := Some [hd layout_tab2\<lparr>dd_value := Some a\<rparr>]\<rparr>"
  have "ui_step tab_values render_tab_content app_init ?t1"
    by (rule ui_step.switch_tab) (simp_all add: tab_values_def app_init_def)
  moreover have "ui_reachable tab_values render_tab_content ?t1 ?t"
    using ui_reachable_pick1 [of ?t1 "hd layout_tab2" a] a
    by (simp add: render_tab_content_def layout_tab2_def)
  ultimately have "ui_reachable tab_values render_tab_content app_init ?t"
    by (blast intro: ui_reachable_trans ui_reachable.step ui_reachable.start)
  moreover have "app_view deaths ?t = Tab2View (usa_map_choropleth (the (app2_view deaths s)))"
    using ds v by (simp add: app_view_def app2_view_def layout_tab2_def dd_value_of_def
        usa_map_choropleth_def update_usa_map_def update_time_series_dashboard_def Let_def)
  ultimately show ?thesis by blast
qed

theorem app2_simulated_by_app_witness:
  "ui_reachable [] (\<lambda>_. Some app2_layout) app2_init app2_init \<and>
   dd_value_of (the (ui_content app2_init)) ''age-range-dropdown'' = Some ''All ages'' \<and>
   (\<exists>t. ui_reachable tab_values render_tab_content app_init t \<and>
      app_view example_deaths t = Tab2View (usa_map_choropleth (the (app2_view example_deaths app2_init))))"
proof -
  have v: "dd_value_of (the (ui_content app2_init)) ''age-range-dropdown'' = Some ''All ages''"
    by (simp add: app2_init_def app2_layout_def dd_value_of_def)
  then have "dd_value_of (the (ui_content app2_init)) ''age-range-dropdown'' \<noteq> None" by simp
  with app2_simulated_by_app [OF ui_reachable.start] v ui_reachable.start show ?thesis by blast
qed

end
