(* ===== verification/TimeSeries.thy ===== *)
theory TimeSeries
  imports Prelude
begin

text \<open>
  The exploratory analysis of \<^verbatim>\<open>src/covid_analysis.py\<close> over \<^verbatim>\<open>covid_grouped.csv\<close>:
  the US rows sorted by date (lines 35--37), the 7-day moving averages of the daily
  differences of the cumulative counts (lines 44--45), the death-to-case ratio with
  infinities and NaN replaced by 0 (lines 79--81) and the monthly totals (line 98).
  A row keeps the columns the code reads; a date (\<open>pd.to_datetime\<close>) is a
  (year, month, day) triple, ordered lexicographically as timestamps are.
  A float column is \<open>real option\<close> where the code produces NaN (\<open>diff\<close>,
  \<open>rolling\<close>); the ratio's intermediate division is an IEEE-style value \<open>fval\<close>
  with \<open>inf\<close>, \<open>-inf\<close> and NaN, since the code treats those cases explicitly.
  Plotting and file output are not modelled.
\<close>

type_synonym date = "nat \<times> nat \<times> nat"

record grouped_row =
  Date :: date
  Country_Region :: string
  Confirmed :: int
  Deaths :: int

datatype fval = Fin real | PInf | NInf | NaN

definition usa_grouped :: "grouped_row list \<Rightarrow> grouped_row list" where
  "usa_grouped grouped = sort_key Date (filter (\<lambda>r. Country_Region r = ''US'') grouped)"

definition pd_diff :: "int list \<Rightarrow> real option list" where
  "pd_diff xs =
     (case xs of [] \<Rightarrow> [] | _ # rest \<Rightarrow> None # map2 (\<lambda>a b. Some (of_int b - of_int a)) xs rest)"

definition window_mean :: "nat \<Rightarrow> real option list \<Rightarrow> real option" where
  "window_mean w ws =
     (if list_all (\<lambda>c. c \<noteq> None) ws then Some (sum_list (map the ws) / real w) else None)"

definition rolling_mean :: "nat \<Rightarrow> real option list \<Rightarrow> real option list" where
  "rolling_mean w xs =
     map (\<lambda>i. if i + 1 < w then None else window_mean w (take w (drop (i + 1 - w) xs)))
       [0..<length xs]"

definition moving_averages :: "grouped_row list \<Rightarrow> real option list \<times> real option list" where
  "moving_averages usa =
     (rolling_mean 7 (pd_diff (map Confirmed usa)), rolling_mean 7 (pd_diff (map Deaths usa)))"

definition pd_truediv :: "int \<Rightarrow> int \<Rightarrow> fval" where
  "pd_truediv d c =
     (if c \<noteq> 0 then Fin (of_int d / of_int c)
      else if 0 < d then PInf else if d < 0 then NInf else NaN)"

definition replace_inf :: "fval \<Rightarrow> fval" where
  "replace_inf v = (case v of PInf \<Rightarrow> NaN | NInf \<Rightarrow> NaN | _ \<Rightarrow> v)"

definition fillna0 :: "fval \<Rightarrow> fval" where
  "fillna0 v = (case v of NaN \<Rightarrow> Fin 0 | _ \<Rightarrow> v)"

definition death_to_case_ratio :: "grouped_row list \<Rightarrow> fval list" where
  "death_to_case_ratio usa =
     map (\<lambda>r. fillna0 (replace_inf (pd_truediv (Deaths r) (Confirmed r)))) usa"

definition month_index :: "date \<Rightarrow> int" where
  "month_index d = (case d of (y, m, _) \<Rightarrow> 12 * int y + int m - 1)"

definition month_sum :: "(grouped_row \<Rightarrow> int) \<Rightarrow> grouped_row list \<Rightarrow> int \<Rightarrow> int" where
  "month_sum f rows k = sum_list (map f (filter (\<lambda>r. month_index (Date r) = k) rows))"

definition resample_monthly :: "grouped_row list \<Rightarrow> (int \<times> int \<times> int) list" where
  "resample_monthly rows =
     (if rows = [] then []
      else let ks = map (\<lambda>r. month_index (Date r)) rows
           in map (\<lambda>k. (k, month_sum Confirmed rows k, month_sum Deaths rows k))
                [Min (set ks)..Max (set ks)])"

section \<open>Lemmas\<close>

lemma length_pd_diff [simp]: "length (pd_diff xs) = length xs"
  by (cases xs) (simp_all add: pd_diff_def)

lemma nth_pd_diff:
  "j < length xs \<Longrightarrow>
   pd_diff xs ! j = (if j = 0 then None else Some (of_int (xs ! j) - of_int (xs ! (j - 1))))"
proof (cases xs)
  case Nil
  then show "j < length xs \<Longrightarrow> ?thesis" by simp
next
  case (Cons x rest)
  assume "j < length xs"
  with Cons show ?thesis
    by (cases j) (simp_all add: pd_diff_def nth_Cons')
qed

lemma take_drop_as_map:
  "j + n \<le> length xs \<Longrightarrow> take n (drop j xs) = map (\<lambda>k. xs ! (j + k)) [0..<n]"
  by (rule nth_equalityI) auto

lemma length_rolling_mean [simp]: "length (rolling_mean w xs) = length xs"
  by (simp add: rolling_mean_def)

lemma sum_upt_telescope:
  fixes g :: "nat \<Rightarrow> real"
  shows "sum_list (map (\<lambda>k. g (Suc k) - g k) [0..<n]) = g n - g 0"
  by (simp add: interv_sum_list_conv_sum_set_nat atLeast0LessThan sum_lessThan_telescope)

lemma rolling_mean_pd_diff:
  assumes "0 < w" and "i < length xs"
  shows "rolling_mean w (pd_diff xs) ! i =
     (if i < w then None else Some ((of_int (xs ! i) - of_int (xs ! (i - w))) / real w))"
proof (cases "i < w")
  case True
  show ?thesis
  proof (cases "i + 1 < w")
    case True
    with assms show ?thesis by (simp add: rolling_mean_def)
  next
    case False
    with \<open>i < w\<close> have "i + 1 - w = 0" and "w \<le> length xs" using assms by auto
    then have "take w (drop (i + 1 - w) (pd_diff xs)) = map (\<lambda>k. pd_diff xs ! k) [0..<w]"
      using take_drop_as_map [of 0 w "pd_diff xs"] by simp
    moreover have "pd_diff xs ! 0 = None"
      using assms(2) nth_pd_diff [of 0 xs] by (cases xs) simp_all
    ultimately have "window_mean w (take w (drop (i + 1 - w) (pd_diff xs))) = None"
      using assms(1) by (auto simp: window_mean_def list_all_iff)
    with assms \<open>i < w\<close> show ?thesis by (simp add: rolling_mean_def)
  qed
next
  case False
  let ?j = "i + 1 - w"
  let ?g = "\<lambda>k. real_of_int (xs ! (i - w + k))"
  have j: "?j = Suc (i - w)" and len: "?j + w \<le> length xs"
    using False assms by auto
  have win: "take w (drop ?j (pd_diff xs)) = map (\<lambda>k. Some (?g (Suc k) - ?g k)) [0..<w]"
    using len j assms(2) by (simp add: take_drop_as_map nth_pd_diff)
  have "sum_list (map (\<lambda>k. ?g (Suc k) - ?g k) [0..<w]) = ?g w - ?g 0"
    by (rule sum_upt_telescope)
  moreover have "?g w = of_int (xs ! i)"
    using False by simp
  ultimately have "window_mean w (take w (drop ?j (pd_diff xs))) =
      Some ((of_int (xs ! i) - of_int (xs ! (i - w))) / real w)"
    unfolding win by (simp add: window_mean_def list_all_iff comp_def)
  with False assms show ?thesis by (simp add: rolling_mean_def)
qed

lemma rolling_diff_bounds:
  fixes M :: int
  assumes inc: "\<forall>j. 0 < j \<and> j < length xs \<longrightarrow> 0 \<le> xs ! j - xs ! (j - 1) \<and> xs ! j - xs ! (j - 1) \<le> M"
    and i: "i < length xs" and x: "rolling_mean 7 (pd_diff xs) ! i = Some x"
  shows "0 \<le> x \<and> x \<le> of_int M"
proof -
  from x rolling_mean_pd_diff [of 7 i xs] i have ge: "7 \<le> i"
    and xv: "x = (of_int (xs ! i) - of_int (xs ! (i - 7))) / 7"
    by (auto split: if_splits)
  let ?g = "\<lambda>k. real_of_int (xs ! (i - 7 + k))"
  have tel: "of_int (xs ! i) - of_int (xs ! (i - 7)) = sum_list (map (\<lambda>k. ?g (Suc k) - ?g k) [0..<7])"
    using ge sum_upt_telescope [of ?g 7] by simp
  have step: "0 \<le> ?g (Suc k) - ?g k \<and> ?g (Suc k) - ?g k \<le> of_int M" if "k < 7" for k
  proof -
    have "0 < i - 7 + Suc k \<and> i - 7 + Suc k < length xs" using that ge i by simp
    with inc have "0 \<le> xs ! (i - 7 + Suc k) - xs ! (i - 7 + Suc k - 1) \<and>
                   xs ! (i - 7 + Suc k) - xs ! (i - 7 + Suc k - 1) \<le> M"
      by blast
    then show ?thesis by simp
  qed
  have "(0::real) \<le> of_int (xs ! i) - of_int (xs ! (i - 7))"
    unfolding tel by (rule sum_list_nonneg) (use step in auto)
  moreover have "(of_int (xs ! i) - of_int (xs ! (i - 7)) :: real) \<le> sum_list (map (\<lambda>k. real_of_int M) [0..<7])"
    unfolding tel by (rule sum_list_mono) (use step in auto)
  ultimately show ?thesis by (simp add: xv sum_list_triv)
qed

lemma ratio_value:
  "fillna0 (replace_inf (pd_truediv d c)) = Fin (if c = 0 then 0 else of_int d / of_int c)"
  by (simp add: pd_truediv_def replace_inf_def fillna0_def)

lemma sum_list_upto:
  fixes f :: "int \<Rightarrow> int"
  shows "sum_list (map f [lo..hi]) = sum f {lo..hi}"
  by (simp add: sum_list_distinct_conv_sum_set)

lemma month_sum_total:
  assumes "rows \<noteq> []"
  shows "sum_list (map (month_sum f rows)
           [Min (set (map (\<lambda>r. month_index (Date r)) rows))..Max (set (map (\<lambda>r. month_index (Date r)) rows))])
         = sum_list (map f rows)"
proof -
  let ?ks = "map (\<lambda>r. month_index (Date r)) rows"
  have cover: "(\<lambda>r. month_index (Date r)) ` set rows \<subseteq> {Min (set ?ks)..Max (set ?ks)}"
    using assms by auto
  show ?thesis
    using sum_list_partition [OF finite_atLeastAtMost_int cover, of f]
    by (simp add: sum_list_upto month_sum_def)
qed

lemma successively_upto: "successively (\<lambda>a b. b = a + 1) [lo..hi]"
proof (induction lo hi rule: upto.induct)
  case (1 i j)
  show ?case
  proof (cases "i + 1 \<le> j")
    case True
    then have eq: "[i..j] = i # [i + 1..j]" and eq2: "[i + 1..j] = (i + 1) # [i + 1 + 1..j]"
      by (simp_all add: upto_rec1)
    from 1 True have "successively (\<lambda>a b. b = a + 1) [i + 1..j]" by simp
    then show ?thesis
      unfolding eq using eq2 by (simp add: successively_Cons)
  next
    case False
    then show ?thesis
      by (cases "i \<le> j") (simp_all add: upto.simps [of i j] upto.simps [of "i + 1" j])
  qed
qed

section \<open>Properties\<close>

text \<open>
  C17. The US series is the US rows of the table, each exactly as often as in the file,
  in ascending date order.
\<close>

theorem usa_grouped_sorted_perm:
  "sorted (map Date (usa_grouped grouped)) \<and>
   mset (usa_grouped grouped) = mset (filter (\<lambda>r. Country_Region r = ''US'') grouped)"
  by (simp add: usa_grouped_def)

text \<open>
  C18. The 7-day moving average of the daily differences is NaN on the first seven days
  and afterwards the cumulative count's increase over the last seven days divided by 7,
  for both cases and deaths.
\<close>

theorem moving_averages_telescope:
  assumes "i < length usa"
  shows "fst (moving_averages usa) ! i =
           (if i < 7 then None
            else Some ((of_int (Confirmed (usa ! i)) - of_int (Confirmed (usa ! (i - 7)))) / 7)) \<and>
         snd (moving_averages usa) ! i =
           (if i < 7 then None
            else Some ((of_int (Deaths (usa ! i)) - of_int (Deaths (usa ! (i - 7)))) / 7))"
  using assms rolling_mean_pd_diff [of 7 i "map Confirmed usa"]
    rolling_mean_pd_diff [of 7 i "map Deaths usa"]
  by (simp add: moving_averages_def)

theorem moving_averages_telescope_witness:
  "(8::nat) < length (map (\<lambda>n. \<lparr>Date = (2020, 3, n), Country_Region = ''US'', Confirmed = int (n * n), Deaths = int n\<rparr>) [1..<11]) \<and>
   fst (moving_averages (map (\<lambda>n. \<lparr>Date = (2020, 3, n), Country_Region = ''US'', Confirmed = int (n * n), Deaths = int n\<rparr>) [1..<11])) ! 8 = Some 11"
proof -
  let ?u = "map (\<lambda>n. \<lparr>Date = (2020, 3, n), Country_Region = ''US'', Confirmed = int (n * n), Deaths = int n\<rparr>) [1..<11]"
  have l: "(8::nat) < length ?u" by simp
  have "fst (moving_averages ?u) ! 8 = Some ((of_int (Confirmed (?u ! 8)) - of_int (Confirmed (?u ! 1))) / 7)"
    using moving_averages_telescope [OF l] by simp
  then show ?thesis using l by (simp add: upt_rec)
qed

text \<open>
  C19. The death-to-case ratio never holds an infinity or NaN: a day with no confirmed
  case (where pandas yields \<open>inf\<close>, \<open>-inf\<close> or NaN) gets ratio 0, every other day
  deaths divided by confirmed cases.
\<close>

theorem death_to_case_ratio_finite:
  "death_to_case_ratio usa =
     map (\<lambda>r. Fin (if Confirmed r = 0 then 0 else of_int (Deaths r) / of_int (Confirmed r))) usa"
  by (simp add: death_to_case_ratio_def ratio_value)

text \<open>
  C20. When no day has more deaths than confirmed cases and no count is negative, every
  ratio lies between 0 and 1.
\<close>

theorem death_to_case_ratio_bounds:
  assumes "\<forall>r\<in>set usa. 0 \<le> Deaths r \<and> Deaths r \<le> Confirmed r"
  shows "\<forall>v\<in>set (death_to_case_ratio usa). \<exists>x. v = Fin x \<and> 0 \<le> x \<and> x \<le> 1"
  using assms by (auto simp: death_to_case_ratio_def ratio_value divide_le_eq_1)

theorem death_to_case_ratio_bounds_witness:
  "death_to_case_ratio [\<lparr>Date = (2020, 3, 1), Country_Region = ''US'', Confirmed = 0, Deaths = 0\<rparr>,
                        \<lparr>Date = (2020, 3, 2), Country_Region = ''US'', Confirmed = 40, Deaths = 2\<rparr>] =
     [Fin 0, Fin (1 / 20)] \<and> (0::real) \<le> 1 / 20 \<and> (1::real) / 20 \<le> 1"
proof -
  let ?u = "[\<lparr>Date = (2020, 3, 1), Country_Region = ''US'', Confirmed = 0, Deaths = 0\<rparr>,
             \<lparr>Date = (2020, 3, 2), Country_Region = ''US'', Confirmed = (40::int), Deaths = 2\<rparr>]"
  have h: "\<forall>r\<in>set ?u. 0 \<le> Deaths r \<and> Deaths r \<le> Confirmed r" by simp
  have "\<forall>v\<in>set (death_to_case_ratio ?u). \<exists>x. v = Fin x \<and> 0 \<le> x \<and> x \<le> 1"
    by (rule death_to_case_ratio_bounds [OF h])
  moreover have "death_to_case_ratio ?u = [Fin 0, Fin (1 / 20)]"
    by (simp add: death_to_case_ratio_def ratio_value)
  ultimately show ?thesis by simp
qed

text \<open>
  C21. Monthly resampling conserves the totals: the monthly sums of confirmed cases and of
  deaths add up to the sums over all rows.
\<close>

theorem resample_monthly_conserves:
  "sum_list (map (\<lambda>b. fst (snd b)) (resample_monthly rows)) = sum_list (map Confirmed rows) \<and>
   sum_list (map (\<lambda>b. snd (snd b)) (resample_monthly rows)) = sum_list (map Deaths rows)"
proof (cases "rows = []")
  case True
  then show ?thesis by (simp add: resample_monthly_def)
next
  case False
  then show ?thesis
    using month_sum_total [OF False, of Confirmed] month_sum_total [OF False, of Deaths]
    by (simp add: resample_monthly_def Let_def comp_def)
qed

text \<open>
  C22. The monthly bins are consecutive months from the first to the last month of the
  data, every row falls in one of them, and a month without rows is a bin with zero
  totals (pandas fills the gap rather than omitting the month).
\<close>

theorem resample_monthly_bins:
  "successively (\<lambda>a b. b = a + 1) (map fst (resample_monthly rows)) \<and>
   (\<forall>r\<in>set rows. month_index (Date r) \<in> set (map fst (resample_monthly rows))) \<and>
   (\<forall>b\<in>set (resample_monthly rows).
      fst b \<notin> (\<lambda>r. month_index (Date r)) ` set rows \<longrightarrow> snd b = (0, 0))"
proof (cases "rows = []")
  case True
  then show ?thesis by (simp add: resample_monthly_def)
next
  case False
  have empty: "month_sum f rows k = 0"
    if "k \<notin> (\<lambda>r. month_index (Date r)) ` set rows" for f k
  proof -
    have "filter (\<lambda>r. month_index (Date r) = k) rows = []"
      using that by (metis (mono_tags, lifting) filter_empty_conv image_eqI)
    then show ?thesis by (simp add: month_sum_def)
  qed
  from False show ?thesis
    by (auto simp: resample_monthly_def Let_def comp_def successively_upto empty
             intro: Min_le Max_ge)
qed

theorem resample_monthly_bins_witness:
  "resample_monthly [\<lparr>Date = (2020, 1, 5), Country_Region = ''US'', Confirmed = 3, Deaths = 1\<rparr>,
                     \<lparr>Date = (2020, 3, 5), Country_Region = ''US'', Confirmed = 7, Deaths = 2\<rparr>] =
     [(24240, 3, 1), (24241, 0, 0), (24242, 7, 2)] \<and>
   successively (\<lambda>a b. b = a + 1) [24240, 24241, (24242::int)]"
proof -
  let ?rows = "[\<lparr>Date = (2020::nat, 1::nat, 5::nat), Country_Region = ''US'', Confirmed = (3::int), Deaths = (1::int)\<rparr>,
                \<lparr>Date = (2020, 3, 5), Country_Region = ''US'', Confirmed = 7, Deaths = 2\<rparr>]"
  have r: "resample_monthly ?rows = [(24240, 3, 1), (24241, 0, 0), (24242, 7, 2)]"
    by (simp add: resample_monthly_def month_index_def month_sum_def upto.simps)
  have "successively (\<lambda>a b. b = a + 1) (map fst (resample_monthly ?rows))"
    using resample_monthly_bins [of ?rows] by blast
  with r show ?thesis by simp
qed

text \<open>
  C30. On cumulative counts, the moving averages are bounded by the daily increments: when
  every day's increase of the confirmed count lies between 0 and \<open>M\<close>, every 7-day
  average of new cases that is not NaN lies between 0 and \<open>M\<close>. (The real data's
  cumulative counts are revised downwards on some days; there the average can be
  negative.)
\<close>

theorem moving_averages_bounds:
  assumes "\<forall>j. 0 < j \<and> j < length usa \<longrightarrow>
             0 \<le> Confirmed (usa ! j) - Confirmed (usa ! (j - 1)) \<and>
             Confirmed (usa ! j) - Confirmed (usa ! (j - 1)) \<le> M"
    and "i < length usa" and "fst (moving_averages usa) ! i = Some x"
  shows "0 \<le> x \<and> x \<le> of_int M"
proof -
  have "\<forall>j. 0 < j \<and> j < length (map Confirmed usa) \<longrightarrow>
          0 \<le> map Confirmed usa ! j - map Confirmed usa ! (j - 1) \<and>
          map Confirmed usa ! j - map Confirmed usa ! (j - 1) \<le> M"
    using assms(1) by force
  with assms(2,3) show ?thesis
    using rolling_diff_bounds [of "map Confirmed usa" M i x] by (simp add: moving_averages_def)
qed

theorem moving_averages_bounds_witness:
  "fst (moving_averages (map (\<lambda>n. \<lparr>Date = (2020, 3, n), Country_Region = ''US'', Confirmed = int (3 * n), Deaths = int n\<rparr>) [1..<11])) ! 8 = Some 3 \<and>
   (0::real) \<le> 3 \<and> (3::real) \<le> of_int 3"
proof -
  let ?u = "map (\<lambda>n. \<lparr>Date = (2020, 3, n), Country_Region = ''US'', Confirmed = int (3 * n), Deaths = int n\<rparr>) [1..<11]"
  have inc: "\<forall>j. 0 < j \<and> j < length ?u \<longrightarrow>
      0 \<le> Confirmed (?u ! j) - Confirmed (?u ! (j - 1)) \<and> Confirmed (?u ! j) - Confirmed (?u ! (j - 1)) \<le> 3"
    by (auto simp: nth_Cons')
  have v: "fst (moving_averages ?u) ! 8 = Some 3"
    using rolling_mean_pd_diff [of 7 8 "map Confirmed ?u"] by (simp add: moving_averages_def upt_rec)
  have "0 \<le> (3::real) \<and> (3::real) \<le> of_int 3"
    using moving_averages_bounds [OF inc _ v] by simp
  with v show ?thesis by simp
qed

end
