(* ===== verification/Charts.thy ===== *)
theory Charts
  imports TimeSeries
begin

text \<open>
  The charts of the exploratory analysis in \<^verbatim>\<open>src/covid_analysis.py\<close>: the two
  \<open>px.line\<close> figures of the cumulative totals (lines 52--56), the matplotlib plot of the
  moving averages (lines 62--72), the seaborn plot of the death-to-case ratio (lines 83--88),
  the monthly \<open>px.line\<close> figure (lines 100--112) and the dual-axis comparison (lines
  118--136). Each chart is modelled by the data it plots: its x values, its series (label,
  y values and the y axis they are drawn on, 0 for the left and 1 for the twin axis), its
  title, its x label and the label of each y axis. A y value is \<open>None\<close> where the column holds NaN (the libraries leave
  a gap there). Colours, sizes, tick formats and the files written are not modelled.
\<close>

record series =
  series_label :: string
  series_y :: "real option list"
  series_axis :: nat

record 'x line_chart =
  chart_x :: "'x list"
  chart_series :: "series list"
  chart_title :: string
  chart_xlabel :: string
  chart_ylabels :: "string list"

definition int_column :: "int list \<Rightarrow> real option list" where
  "int_column xs = map (\<lambda>v. Some (of_int v)) xs"

definition fval_column :: "fval list \<Rightarrow> real option list" where
  "fval_column vs = map (\<lambda>v. case v of Fin x \<Rightarrow> Some x | _ \<Rightarrow> None) vs"

definition fig_total :: "string \<Rightarrow> (grouped_row \<Rightarrow> int) \<Rightarrow> string \<Rightarrow> grouped_row list \<Rightarrow> date line_chart" where
  "fig_total col f title usa =
     \<lparr>chart_x = map Date usa,
      chart_series = [\<lparr>series_label = col, series_y = int_column (map f usa), series_axis = 0\<rparr>],
      chart_title = title, chart_xlabel = ''Date'', chart_ylabels = [col]\<rparr>"

definition fig1 :: "grouped_row list \<Rightarrow> date line_chart" where
  "fig1 usa = fig_total ''Confirmed'' Confirmed ''Total Confirmed Cases in USA'' usa"

definition fig2 :: "grouped_row list \<Rightarrow> date line_chart" where
  "fig2 usa = fig_total ''Deaths'' Deaths ''Total Deaths in USA'' usa"

definition moving_average_plot :: "grouped_row list \<Rightarrow> date line_chart" where
  "moving_average_plot usa =
     \<lparr>chart_x = map Date usa,
      chart_series =
        [\<lparr>series_label = ''7-Day Avg Cases'', series_y = fst (moving_averages usa), series_axis = 0\<rparr>,
         \<lparr>series_label = ''7-Day Avg Deaths'', series_y = snd (moving_averages usa), series_axis = 0\<rparr>],
      chart_title = ''COVID-19 USA: 7-Day Moving Averages'',
      chart_xlabel = ''Date'', chart_ylabels = [''Cases / Deaths'']\<rparr>"

definition ratio_plot :: "grouped_row list \<Rightarrow> date line_chart" where
  "ratio_plot usa =
     \<lparr>chart_x = map Date usa,
      chart_series = [\<lparr>series_label = ''Death_to_case_ratio'',
                       series_y = fval_column (death_to_case_ratio usa), series_axis = 0\<rparr>],
      chart_title = ''Death-to-Case Ratio Over Time (USA)'',
      chart_xlabel = ''Date'', chart_ylabels = [''Ratio'']\<rparr>"

definition fig_slider :: "grouped_row list \<Rightarrow> int line_chart" where
  "fig_slider usa =
     (let usa_monthly = resample_monthly usa
      in \<lparr>chart_x = map fst usa_monthly,
          chart_series = [\<lparr>series_label = ''Confirmed'',
                           series_y = int_column (map (\<lambda>b. fst (snd b)) usa_monthly), series_axis = 0\<rparr>,
                          \<lparr>series_label = ''Deaths'',
                           series_y = int_column (map (\<lambda>b. snd (snd b)) usa_monthly), series_axis = 0\<rparr>],
          chart_title = ''COVID-19 Cases & Deaths Over Time (USA)'',
          chart_xlabel = ''Date'', chart_ylabels = [''Count'']\<rparr>)"

definition dual_axis_plot :: "grouped_row list \<Rightarrow> date line_chart" where
  "dual_axis_plot usa =
     \<lparr>chart_x = map Date usa,
      chart_series =
        [\<lparr>series_label = ''7-Day Avg Cases'', series_y = fst (moving_averages usa), series_axis = 0\<rparr>,
         \<lparr>series_label = ''7-Day Avg Deaths'', series_y = snd (moving_averages usa), series_axis = 1\<rparr>],
      chart_title = ''Comparison of Cases vs. Deaths in USA (7-Day Moving Avg)'',
      chart_xlabel = ''Date'', chart_ylabels = [''7-Day Avg Cases'', ''7-Day Avg Deaths'']\<rparr>"

section \<open>Lemmas\<close>

lemma month_sum_const:
  assumes "\<forall>r\<in>set rows. month_index (Date r) = k \<longrightarrow> f r = c"
  shows "month_sum f rows k = c * int (length (filter (\<lambda>r. month_index (Date r) = k) rows))"
  using assms by (induction rows) (auto simp: month_sum_def algebra_simps)

lemma resample_monthly_bin:
  "(k, cs, ds) \<in> set (resample_monthly rows) \<Longrightarrow>
     cs = month_sum Confirmed rows k \<and> ds = month_sum Deaths rows k"
  by (auto simp: resample_monthly_def Let_def split: if_splits)

section \<open>Properties\<close>

text \<open>
  C28. The monthly chart sums cumulative counts: a month in which the cumulative number of
  confirmed cases stays at \<open>c\<close> is plotted as \<open>c\<close> times the number of daily rows of
  that month, not as \<open>c\<close>. The plotted "Count" therefore grows with the length of the month
  and is not the month's total of new cases.
\<close>

theorem fig_slider_sums_cumulative:
  assumes "(k, cs, ds) \<in> set (resample_monthly usa)"
    and "\<forall>r\<in>set usa. month_index (Date r) = k \<longrightarrow> Confirmed r = c"
  shows "cs = c * int (length (filter (\<lambda>r. month_index (Date r) = k) usa))"
  using resample_monthly_bin [OF assms(1)] month_sum_const [OF assms(2)] by simp

theorem fig_slider_sums_cumulative_witness:
  "resample_monthly
     [\<lparr>Date = (2020, 4, 28), Country_Region = ''US'', Confirmed = 10, Deaths = 1\<rparr>,
      \<lparr>Date = (2020, 4, 29), Country_Region = ''US'', Confirmed = 10, Deaths = 1\<rparr>,
      \<lparr>Date = (2020, 4, 30), Country_Region = ''US'', Confirmed = 10, Deaths = 1\<rparr>,
      \<lparr>Date = (2020, 5, 1), Country_Region = ''US'', Confirmed = 10, Deaths = 1\<rparr>] =
     [(24243, 30, 3), (24244, 10, 1)] \<and> (30::int) = 10 * 3"
proof -
  let ?u = "[\<lparr>Date = (2020::nat, 4::nat, 28::nat), Country_Region = ''US'', Confirmed = (10::int), Deaths = (1::int)\<rparr>,
      \<lparr>Date = (2020, 4, 29), Country_Region = ''US'', Confirmed = 10, Deaths = 1\<rparr>,
      \<lparr>Date = (2020, 4, 30), Country_Region = ''US'', Confirmed = 10, Deaths = 1\<rparr>,
      \<lparr>Date = (2020, 5, 1), Country_Region = ''US'', Confirmed = 10, Deaths = 1\<rparr>]"
  have r: "resample_monthly ?u = [(24243, 30, 3), (24244, 10, 1)]"
    by (simp add: resample_monthly_def month_index_def month_sum_def upto.simps)
  have "(24243, 30, 3) \<in> set (resample_monthly ?u)" unfolding r by simp
  moreover have "\<forall>r\<in>set ?u. month_index (Date r) = 24243 \<longrightarrow> Confirmed r = 10" by simp
  ultimately have e: "(30::int) = 10 * int (length (filter (\<lambda>r. month_index (Date r) = 24243) ?u))"
    by (rule fig_slider_sums_cumulative)
  have l: "length (filter (\<lambda>r. month_index (Date r) = 24243) ?u) = 3"
    by (simp add: month_index_def)
  from e have "(30::int) = 10 * 3" unfolding l of_nat_numeral .
  with r show ?thesis by (rule conjI)
qed

end
