(* ===== verification/Spec2Isabelle.thy ===== *)
theory Spec2Isabelle
  imports Sessions Charts
begin

text \<open>
  \<^bold>\<open>A verification library for the COVID-19 mortality dashboards.\<close>

  \<^emph>\<open>The program.\<close> \<^verbatim>\<open>src/app.py\<close> is a Dash web application over one pandas
  DataFrame \<open>deaths\<close> (the CSV \<^verbatim>\<open>coviddeath.csv\<close>, loaded once at import). It has
  two tabs: the "Mortality by Comorbidity" tab filters the table by an age-range dropdown
  and a condition dropdown and draws one bar per matching row
  (\<open>update_mortality_dashboard\<close>); the second tab sums the death counts per state,
  optionally restricted to one age group, for a choropleth map
  (\<open>update_time_series_dashboard\<close>). A callback on the tab component mounts the layout
  of the selected tab (\<open>render_tab_content\<close>). \<^verbatim>\<open>src/covid_analysis.py\<close> is a
  notebook export: it derives US time series from \<^verbatim>\<open>covid_grouped.csv\<close> (filter,
  sort by date, 7-day moving averages of daily differences, death-to-case ratio, monthly
  resampling), writes static charts, and re-implements both dashboards as two separate
  JupyterDash apps (\<open>update_output\<close>, \<open>update_usa_map\<close>) with small differences.
  No component keeps state beyond the immutable table except the browser-side values of
  the dropdowns, which Dash feeds into the callbacks.

  \<^emph>\<open>How it is modelled.\<close> Shallow embedding: the DataFrame is a list of records in
  row order; a boolean-mask selection is \<open>filter\<close>; \<open>Series.sum()\<close> is \<open>pd_sum\<close>,
  which counts a missing cell (NaN, \<open>None\<close>) as 0; a dropdown value is a
  \<open>string option\<close> (\<open>None\<close> when cleared), and pandas' \<open>column == value\<close> is
  \<open>sel_eq\<close>, false everywhere for \<open>None\<close>. Python integers are \<open>int\<close>/\<open>nat\<close>
  (no overflow in the code), strings are \<open>string\<close> ordered by code point as Python
  orders them. Each callback is one definition taking the table as an explicit argument
  (the module global of the source) and returning what it hands to the chart library:
  the status text and the data and title of the figure.

  \<^emph>\<open>Theories and what they show.\<close>
  \<^item> \<open>Prelude\<close>: the pandas and Python primitives (\<open>pd_sum\<close>, \<open>sel_eq\<close>,
    \<open>py_str_sel\<close>, \<open>py_str_nat\<close> = Python \<open>str\<close> on a count, \<open>parse_nat\<close>), the
    collection \<open>pandas_simps\<close>, and shared lemmas: sums over a partition of a list
    (\<open>sum_list_partition\<close>, \<open>pd_sum_partition\<close>), uniqueness of association lists
    with strictly sorted keys (\<open>sorted_alist_unique\<close>), the decimal print/parse round
    trip, monotonicity of \<open>pd_sum\<close> under filtering for non-negative cells.
  \<^item> \<open>Table\<close>: the row record \<open>mortality_row\<close> (columns \<open>State\<close>, \<open>Age Group\<close>,
    \<open>Condition\<close>, \<open>Number of COVID-19 Deaths\<close>), the \<open>conditions\<close> list of
    \<^verbatim>\<open>src/app.py\<close> lines 10--20 and the notebook's copy \<open>conditions_nb\<close> (lines
    144--152, used by the notebook's first app), the data invariant \<open>wf_table\<close> (no
    negative death count, from the specification), and the specification's three-row
    example table.
  \<^item> \<open>ConditionFilter\<close> (\<^verbatim>\<open>src/app.py\<close> \<open>update_mortality_dashboard\<close>, lines
    94--108; \<^verbatim>\<open>src/covid_analysis.py\<close> \<open>update_output\<close>, lines 199--217):
    \<open>mortality_mask\<close>, \<open>mortality_filter\<close>, \<open>output_text\<close>, \<open>bar_chart\<close>,
    \<open>update_mortality_dashboard\<close>, \<open>update_output_filter\<close>, \<open>update_output\<close>.
    C1, C2: the filter under the sentinel and under an age group; C3: the count printed in
    the status text parses back to the number of bars (print/parse round trip); C4: an
    empty selection reports 0 cases; C5: the notebook's filter agrees with the app's except
    under \<open>'All ages'\<close>; C6: a cleared dropdown selects nothing.
  \<^item> \<open>StateAggregator\<close> (\<^verbatim>\<open>src/app.py\<close> \<open>update_time_series_dashboard\<close>, lines
    110--129; \<^verbatim>\<open>src/covid_analysis.py\<close> \<open>update_usa_map\<close>, lines 255--277): the
    group-by as a one-pass fold into a sorted association list (\<open>group_add\<close>,
    \<open>groupby_step\<close>, \<open>groupby_state_sum\<close>), the age branch \<open>state_deaths\<close>, the
    figures and the notebook's \<open>range_color\<close>. C7: the fold equals the reference
    \<open>state_totals\<close> (one entry per distinct state, sorted, with its sum); C8, C9: the
    per-state totals under \<open>'All ages'\<close> and under an age group; C10: an age group's
    total never exceeds the all-ages total (needs \<open>wf_table\<close>); C11: the all-ages total
    is the sum over the other age groups plus the rows literally labelled
    \<open>'All ages'\<close>; C12: an empty age group gives an empty map and no colour range; C13:
    the colour range is inverted exactly when the largest total is below 40 times the
    smallest.
  \<^item> \<open>Dashboard\<close> (\<^verbatim>\<open>src/app.py\<close> lines 26--93 and the callbacks' inputs;
    \<^verbatim>\<open>src/covid_analysis.py\<close> lines 159--198): dropdowns as records, the layouts,
    \<open>render_tab_content\<close>, the browser's moves as the inductive relation \<open>ui_step\<close>
    (switch tab, pick an option, clear a clearable dropdown) with \<open>ui_reachable\<close>, and
    \<open>app_view\<close>, the callbacks a state fires. A tab switch mounts the router's fresh
    layout, as Dash does for components without \<open>persistence\<close>. The invariant
    \<open>ui_inv\<close> (mounted dropdowns conform to the router's layout; \<open>None\<close> only in a
    clearable one) holds in every reachable state by rule induction. C14: the app's
    callbacks only ever receive selections from the enumerations, and some tab is always
    mounted; C15: a tab switch shows the new tab's default view; C16: the notebook's
    clearable dropdowns reach a cleared selection, which filters out every row.
  \<^item> \<open>TimeSeries\<close> (\<^verbatim>\<open>src/covid_analysis.py\<close> lines 35--45, 78--81, 95--98):
    \<open>usa_grouped\<close>, \<open>pd_diff\<close>, \<open>rolling_mean\<close>, \<open>moving_averages\<close>, the IEEE-style
    quotient \<open>pd_truediv\<close> with \<open>replace_inf\<close> and \<open>fillna0\<close>,
    \<open>death_to_case_ratio\<close>, \<open>resample_monthly\<close>. C17: the US series is a sorted
    permutation of the US rows; C18: the 7-day mean of differences is NaN on the first
    seven rows and then telescopes to \<open>(x ! i - x ! (i - 7)) / 7\<close>; C19: the ratio is
    always finite (0 where no case was confirmed); C20: it lies in [0, 1] when deaths never
    exceed cases; C21: monthly resampling conserves both totals; C22: the bins are
    consecutive months, cover every row, and empty months carry zero totals; C30 (bounds):
    on cumulative counts whose daily increase lies in [0, M], every 7-day average lies in
    [0, M].
  \<^item> \<open>Sessions\<close> (\<^verbatim>\<open>src/covid_analysis.py\<close> lines 230--260): the notebook's map
    app (\<open>app2_layout\<close>, \<open>app2_init\<close>, \<open>app2_view\<close>) as a third instance of
    \<open>ui_step\<close>, and composition lemmas on reachability (\<open>ui_reachable_trans\<close>,
    picking, switching to a tab). C24, C25 (liveness): from every reachable state of the
    two-tab app, resp. the notebook's map app, every selection the dropdowns offer can
    still be reached and is then what the callbacks display; C26: clearing the map app's
    dropdown is reachable and yields an empty map with no colour range; C27: all layouts
    are well formed (distinct ids, non-empty distinct options, defaults among the options)
    and every reachable state of the three apps mounts a well-formed layout; C29
    (refinement): the notebook's map app is simulated by the app's second tab, its figure
    abstracted by \<open>usa_map_choropleth\<close> (dropping the colour range), except in the
    cleared state.
  \<^item> \<open>Charts\<close> (\<^verbatim>\<open>src/covid_analysis.py\<close> lines 52--56, 62--72, 83--88,
    100--112, 118--136): every figure of the analysis as the data it plots
    (\<open>line_chart\<close> of \<open>series\<close>). C28: the monthly chart sums cumulative counts, so a
    month whose cumulative count stays \<open>c\<close> is plotted as \<open>c\<close> times its number of
    days.
  \<^item> This theory: C23, the two dashboards agree: a state's value on the map is the sum of
    its bars over all 23 condition selections, for every age selection; C31: what the app
    and the notebook's map app show when the page loads.

  \<^emph>\<open>Bounds and fuel.\<close> No loop of the program can fail to terminate: every loop is a
  pandas operation over a finite frame, modelled by structural recursion (\<open>fun\<close>,
  \<open>foldl\<close>, \<open>map\<close>) or by the library's interval \<open>[lo..hi]\<close> for the monthly bins,
  so no fuel is used. The Dash sessions are unbounded sequences of steps, modelled by the
  reachability relation rather than by a bound on their length. Python integers are
  unbounded, so no width is modelled; the only floating-point behaviour the code relies on
  (division by zero giving \<open>inf\<close>/NaN) is modelled explicitly by \<open>fval\<close>. The window
  size 7 and the colour factor 0.025 are the code's constants.

  \<^emph>\<open>Not modelled, and why.\<close> What is left of the two files is input, output and
  process wiring, which cannot be modelled faithfully from the repository:
  \<^item> CSV loading (\<open>pd.read_csv\<close>, \<^verbatim>\<open>app.py\<close> line 7, notebook lines 26--28)
    and \<open>pd.to_datetime\<close> on the file's date strings (line 36): the files and their
    formats are not in the repository, so the tables are parameters, with a missing count
    as \<open>None\<close> and dates already parsed into (year, month, day) triples. The second
    \<open>to_datetime\<close> call (line 96) converts an already converted column and has no effect.
  \<^item> Chart rendering (plotly, matplotlib, seaborn): the model stops at the data, titles,
    axis titles and legend flags handed to the chart functions; colours, sizes, tick formats
    and map projection parameters (\<open>locationmode\<close>, \<open>scope\<close>) are not modelled.
  \<^item> File output (\<open>write_html\<close>, \<open>savefig\<close>, \<open>os.makedirs\<close>) and the servers
    (\<open>run_server\<close>, \<open>server = app.server\<close>, the notebook's \<open>app = app1\<close> and its
    \<open>__main__\<close> block starting \<open>app2\<close>): library effects and process entry points
    outside the computed values.
  \<^item> The notebook's \<open>condition_groups\<close> list (lines 154--157) is never used by the code.
  Monthly bins are labelled by a month index instead of pandas' month-end timestamp.
  \<open>sort_values\<close> is modelled by a stable sort; pandas' default quicksort may order rows
  with equal dates differently, which C17 does not depend on.
\<close>

section \<open>Properties spanning the two dashboards\<close>

lemma map_snd_filter_zip:
  "map snd (filter (\<lambda>p. fst p = k) (zip (map f xs) (map g xs))) = map g (filter (\<lambda>x. f x = k) xs)"
  by (induction xs) auto

lemma lookup0_state_deaths_Some:
  "lookup0 (state_deaths (Some a) deaths) s =
     pd_sum (map COVID_19_Deaths
       (filter (\<lambda>r. State r = s \<and> (Age_Group r = a \<or> a = ''All ages'')) deaths))"
proof (cases "a = ''All ages''")
  case True
  then show ?thesis by (simp add: state_deaths_def lookup0_groupby_state_sum state_total_def)
next
  case False
  then show ?thesis by (simp add: lookup0_state_deaths_age)
qed

lemma bars_of_state:
  "pd_sum (map snd (filter (\<lambda>p. fst p = s)
      (zip (bar_x (snd (update_mortality_dashboard deaths (Some a) (Some c))))
           (bar_y (snd (update_mortality_dashboard deaths (Some a) (Some c))))))) =
   pd_sum (map COVID_19_Deaths
     (filter (\<lambda>r. Condition r = c) (filter (\<lambda>r. State r = s \<and> (Age_Group r = a \<or> a = ''All ages'')) deaths)))"
  by (auto simp: dashboard_defs bar_chart_def mortality_filter_def map_snd_filter_zip
           intro!: arg_cong [where f = pd_sum] arg_cong [where f = "map COVID_19_Deaths"] filter_cong)

text \<open>
  C23. For every age selection and every state, the value the map shows is the sum of that
  state's bars in the comorbidity chart over all 23 condition selections, when every row's
  condition is one of \<open>conditions\<close>: the map's total counts the COVID-19 rows together
  with every comorbidity row, as the specification notes.
\<close>

theorem map_total_is_sum_of_condition_bars:
  assumes "\<forall>r\<in>set deaths. Condition r \<in> set conditions"
  shows "lookup0 (state_deaths (Some a) deaths) s =
    (\<Sum>c\<in>set conditions.
       pd_sum (map snd (filter (\<lambda>p. fst p = s)
         (zip (bar_x (snd (update_mortality_dashboard deaths (Some a) (Some c))))
              (bar_y (snd (update_mortality_dashboard deaths (Some a) (Some c))))))))"
proof -
  let ?xs = "filter (\<lambda>r. State r = s \<and> (Age_Group r = a \<or> a = ''All ages'')) deaths"
  have "Condition ` set ?xs \<subseteq> set conditions"
    using assms by auto
  then have "pd_sum (map COVID_19_Deaths ?xs) =
      (\<Sum>c\<in>set conditions. pd_sum (map COVID_19_Deaths (filter (\<lambda>r. Condition r = c) ?xs)))"
    by (rule pd_sum_partition [OF finite_set])
  then show ?thesis
    by (simp add: lookup0_state_deaths_Some bars_of_state)
qed

theorem map_total_is_sum_of_condition_bars_witness:
  "lookup0 (state_deaths (Some ''All ages'') example_deaths) ''California'' =
    (\<Sum>c\<in>set conditions.
       pd_sum (map snd (filter (\<lambda>p. fst p = ''California'')
         (zip (bar_x (snd (update_mortality_dashboard example_deaths (Some ''All ages'') (Some c))))
              (bar_y (snd (update_mortality_dashboard example_deaths (Some ''All ages'') (Some c))))))))"
proof -
  have "\<forall>r\<in>set example_deaths. Condition r \<in> set conditions"
    by (simp add: example_deaths_def conditions_def)
  then show ?thesis
    by (rule map_total_is_sum_of_condition_bars)
qed

text \<open>
  C31. What the page shows when it loads: Dash fires every callback once with the layout's
  initial values. The app opens on the first tab with \<open>'All ages'\<close> and the first
  condition, and its status text counts all rows of that condition, whatever their age
  group; the notebook's map app opens with the map of \<open>'All ages'\<close>, the whole table's
  per-state totals.
\<close>

theorem initial_views:
  "app_view deaths app_init =
     Tab1View (update_mortality_dashboard deaths (Some ''All ages'') (Some ''Influenza and pneumonia'')) \<and>
   shown_count (fst (update_mortality_dashboard deaths (Some ''All ages'') (Some ''Influenza and pneumonia''))) =
     Some (length (filter (\<lambda>r. Condition r = ''Influenza and pneumonia'') deaths)) \<and>
   app2_view deaths app2_init = Some (update_usa_map deaths (Some ''All ages'')) \<and>
   usa_locations (update_usa_map deaths (Some ''All ages'')) = map fst (groupby_state_sum deaths)"
proof -
  have "mortality_filter (Some ''All ages'') (Some ''Influenza and pneumonia'') deaths =
          filter (\<lambda>r. Condition r = ''Influenza and pneumonia'') deaths"
    by (auto simp: mortality_filter_def intro!: filter_cong)
  then show ?thesis
    by (simp add: app_view_def app_init_def render_tab_content_def layout_tab1_def dd_value_of_def
        conditions_def dashboard_defs output_text_count app2_view_def app2_init_def app2_layout_def
        update_usa_map_def state_deaths_def)
qed

end
